theory Spec2Isabelle
  imports Complex_Main "HOL-Library.AList" "HOL-Library.Multiset"
begin

section \<open>Data model (src/types/index.ts)\<close>

text \<open>
  Conventions of the embedding. A TypeScript \<open>number\<close> that carries money, a price or a
  quantity is a \<open>real\<close>; \<open>NaN\<close> and the infinities are outside the model. Arithmetic is
  exact (the decimal semantics that the specification asks for) except in the detector,
  where every operation is rounded as the section on number arithmetic describes.
  Counters are \<open>nat\<close>. A \<open>Date\<close> is its \<open>getTime()\<close>
  value, an \<open>int\<close> of milliseconds. Fields whose TypeScript name occurs in several
  interfaces, or clashes with a HOL constant, carry a short prefix. The two market
  records keep the fields that the matcher reads. Logger calls have no effect on any
  modelled state and are left out.
\<close>

datatype Platform = Polymarket | Kalshi
datatype OrderSide = Buy | Sell
datatype OrderType = FOK | GTC | GTD
datatype OperatingMode = DryRun | Live
datatype MatchMethod = Exact | Fuzzy | Manual
datatype AlertLevel = Critical | High | Medium
datatype Side = Yes | No

datatype FailureType =
    EXECUTION_FAILURE
  | ASYMMETRIC_EXECUTION
  | CONNECTION_LOST
  | RATE_LIMIT_EXCEEDED
  | DAILY_LOSS_LIMIT

record OrderBookLevel =
  lvl_price :: real
  lvl_size :: real

record OrderBook =
  bids :: "OrderBookLevel list"
  asks :: "OrderBookLevel list"
  ob_timestamp :: int

record OutcomeMapping =
  polymarketOutcome :: string
  kalshiSide :: Side

record EventMapping =
  em_id :: string
  polymarketConditionId :: string
  kalshiTicker :: string
  eventDescription :: string
  matchConfidence :: real
  resolutionDate :: int
  matchMethod :: MatchMethod
  outcomeMapping :: "OutcomeMapping list"
  isActive :: bool
  createdAt :: int
  updatedAt :: int

record LimitOrder =
  lo_platform :: Platform
  marketId :: string
  lo_side :: OrderSide
  lo_price :: real
  lo_quantity :: real
  orderType :: OrderType

record OrderResult =
  success :: bool
  orderId :: string
  fillPrice :: "real option"
  fillQuantity :: "real option"
  fees :: "real option"
  or_timestamp :: int
  or_error :: "string option"

record PolymarketMarket =
  pm_id :: string
  pm_title :: string
  pm_endDate :: int
  conditionId :: string
  questionId :: string

record KalshiMarket =
  km_id :: string
  km_title :: string
  km_endDate :: int
  ticker :: string
  category :: string
  expirationTime_k :: int
  settlementTime :: int

record ArbitrageOpportunity =
  opp_id :: string
  opp_timestamp :: int
  eventMapping :: EventMapping
  buyPlatform :: Platform
  buyPrice :: real
  buyQuantity :: real
  sellPlatform :: Platform
  sellPrice :: real
  sellQuantity :: real
  grossSpread :: real
  estimatedFees :: real
  netProfit :: real
  maxQuantity :: real
  executionRisk :: real
  expirationTime :: int

record Position =
  pos_id :: string
  pos_platform :: Platform
  eventId :: string
  eventMappingId :: "string option"
  pos_side :: Side
  pos_quantity :: real
  avgPrice :: real
  currentPrice :: real
  unrealizedPnL :: real
  openedAt :: int
  pos_updatedAt :: int

record PersistedState =
  dailyPnL :: real
  dailyTradeCount :: nat
  dailyVolumeUsd :: real
  tradingDate :: string
  circuitBreakerPaused :: bool
  circuitBreakerReason :: "string option"
  circuitBreakerPausedAt :: "int option"
  openPositions :: "Position list"
  lastHeartbeat :: int
  lastSuccessfulTrade :: "int option"

section \<open>Configuration (src/config/index.ts)\<close>

text \<open>Only the sections read by the modelled components are kept.\<close>

record TradingConfig =
  trading_minProfitThreshold :: real
  maxSlippage :: real

record RiskConfig =
  maxExposurePerEvent :: real
  maxTotalExposure :: real
  maxPositionImbalance :: real
  minProfitThreshold :: real
  minLiquidityDepth :: real
  dailyLossLimit :: real
  maxQuantityPerTrade :: real
  minQuantityPerTrade :: real
  maxConsecutiveFailures :: nat
  maxAsymmetricExecutions :: nat

record MatchingConfig =
  minConfidenceThreshold :: real
  exactMatchConfidence :: real
  fuzzyMatchMinSimilarity :: real
  requireDateValidation :: bool
  requireCategoryMatch :: bool

record SmallPositionConfig =
  minTradeValueUsd :: real
  minProfitUsd :: real
  estimatedGasCostUsd :: real

record OperatingModeConfig =
  mode :: OperatingMode
  trackHypotheticalPnL :: bool

record Config =
  trading :: TradingConfig
  risk :: RiskConfig
  matching :: MatchingConfig
  smallPosition :: SmallPositionConfig
  operatingMode :: OperatingModeConfig

text \<open>The literals of \<open>loadConfig\<close>; the operating mode is read from the environment.\<close>

definition loadConfig :: "OperatingMode \<Rightarrow> Config" where
  "loadConfig m =
     \<lparr> trading = \<lparr> trading_minProfitThreshold = 3 / 100, maxSlippage = 1 / 100 \<rparr>,
       risk = \<lparr> maxExposurePerEvent = 100, maxTotalExposure = 100,
                maxPositionImbalance = 10, minProfitThreshold = 3 / 100,
                minLiquidityDepth = 50, dailyLossLimit = 20,
                maxQuantityPerTrade = 50, minQuantityPerTrade = 1,
                maxConsecutiveFailures = 3, maxAsymmetricExecutions = 1 \<rparr>,
       matching = \<lparr> minConfidenceThreshold = 95 / 100, exactMatchConfidence = 1,
                    fuzzyMatchMinSimilarity = 95 / 100,
                    requireDateValidation = True, requireCategoryMatch = True \<rparr>,
       smallPosition = \<lparr> minTradeValueUsd = 5, minProfitUsd = 1 / 10,
                         estimatedGasCostUsd = 1 / 100 \<rparr>,
       operatingMode = \<lparr> mode = m, trackHypotheticalPnL = True \<rparr> \<rparr>"

section \<open>Process state\<close>

text \<open>
  The singletons of the source (circuit breaker, state manager, risk manager, detector
  cache, matcher index) and the sinks it writes to (the alerter, the venues' order
  entry and the database) are the fields of one record that every operation takes and
  returns.

  The alerter is modelled at \<open>sendAlert\<close>: the log keeps the level and the content of each
  call; whether Telegram then delivers it (the enabled flag, the configured levels, the
  HTTP request) is not modelled. The database is modelled as the
  two tables \<open>saveExecution\<close> inserts into. The state manager's file write (\<open>save\<close>) is
  not modelled.
\<close>

record CircuitBreaker =
  paused :: bool
  pauseReason :: "string option"
  pausedAt :: "int option"
  consecutiveFailures :: nat
  asymmetricExecutions :: nat

record RiskManager =
  positions :: "(string \<times> Position list) list"
  totalExposure :: real

datatype AlertMessage =
    CircuitBreakerAlert string
  | AsymmetricExecutionAlert string string Platform Platform
  | TradeExecutedAlert Platform real Platform real real

datatype ExecutionStatus = Pending | Partial | Complete | Failed

record OpportunityRow =
  row_opportunity :: ArbitrageOpportunity
  was_executed :: bool

record ExecutionRow =
  exec_id :: string
  opportunity_id :: string
  status :: ExecutionStatus
  buy_execution :: "OrderResult option"
  sell_execution :: "OrderResult option"
  actual_profit :: real
  exec_slippage :: real
  exec_notes :: "string option"
  is_dry_run :: bool

record System =
  cb :: CircuitBreaker
  stateManager :: PersistedState
  riskManager :: RiskManager
  lastOpportunities :: "(string \<times> ArbitrageOpportunity) list"
  manualMappings :: "(string \<times> string) list"
  cachedMappings :: "(string \<times> EventMapping) list"
  alertLog :: "(AlertLevel \<times> AlertMessage) list"
  placedOrders :: "LimitOrder list"
  eventMappingsTable :: "EventMapping list"
  opportunitiesTable :: "OpportunityRow list"
  executionsTable :: "ExecutionRow list"

text \<open>
  What a call receives from outside the process: the clock, the UUIDs that \<open>generateId\<close>
  draws (\<open>genId env n\<close> is the one drawn at the \<open>n\<close>-th call site of the operation), the
  order books the connectors return on a fresh fetch and the results of the two order
  placements (\<open>None\<close>: the call throws, or the promise is rejected), and whether each
  database statement succeeds. It also holds the rounding of the runtime's number
  arithmetic, which the detector applies (see the section on number arithmetic).
\<close>

record Env =
  clock :: int
  genId :: "nat \<Rightarrow> string"
  fp_round :: "real \<Rightarrow> real"
  fetchedPolymarketBook :: "OrderBook option"
  fetchedKalshiBook :: "OrderBook option"
  buyOrderResult :: "OrderResult option"
  sellOrderResult :: "OrderResult option"
  insertMappingOk :: bool
  insertOpportunityOk :: bool
  insertExecutionOk :: bool

definition new_CircuitBreaker :: CircuitBreaker where
  "new_CircuitBreaker =
     \<lparr> paused = False, pauseReason = None, pausedAt = None,
       consecutiveFailures = 0, asymmetricExecutions = 0 \<rparr>"

definition new_RiskManager :: RiskManager where
  "new_RiskManager = \<lparr> positions = [], totalExposure = 0 \<rparr>"

definition createInitialState :: "string \<Rightarrow> int \<Rightarrow> PersistedState" where
  "createInitialState today now =
     \<lparr> dailyPnL = 0, dailyTradeCount = 0, dailyVolumeUsd = 0, tradingDate = today,
       circuitBreakerPaused = False, circuitBreakerReason = None,
       circuitBreakerPausedAt = None, openPositions = [],
       lastHeartbeat = now, lastSuccessfulTrade = None \<rparr>"

definition initial_system :: "string \<Rightarrow> int \<Rightarrow> System" where
  "initial_system today now =
     \<lparr> cb = new_CircuitBreaker, stateManager = createInitialState today now,
       riskManager = new_RiskManager, lastOpportunities = [],
       manualMappings = [], cachedMappings = [], alertLog = [], placedOrders = [],
       eventMappingsTable = [], opportunitiesTable = [], executionsTable = [] \<rparr>"

section \<open>Helpers (src/utils/helpers.ts and JavaScript operators)\<close>

text \<open>\<open>x || d\<close> on numbers: \<open>0\<close> is falsy.\<close>

definition or_default :: "real \<Rightarrow> real \<Rightarrow> real" where
  "or_default x d = (if x = 0 then d else x)"

text \<open>\<open>`${n}`\<close> for a non-negative integer.\<close>

fun string_of_nat :: "nat \<Rightarrow> string" where
  "string_of_nat n =
     (if n < 10 then [char_of (48 + n)]
      else string_of_nat (n div 10) @ [char_of (48 + n mod 10)])"

declare string_of_nat.simps [simp del]

section \<open>Alerter (src/core/alerts.ts)\<close>

definition sendAlert :: "AlertLevel \<Rightarrow> AlertMessage \<Rightarrow> System \<Rightarrow> System" where
  "sendAlert level message s = s\<lparr> alertLog := alertLog s @ [(level, message)] \<rparr>"

definition alertCircuitBreaker :: "string \<Rightarrow> System \<Rightarrow> System" where
  "alertCircuitBreaker reason s = sendAlert Critical (CircuitBreakerAlert reason) s"

definition alertAsymmetricExecution ::
  "string \<Rightarrow> string \<Rightarrow> Platform \<Rightarrow> Platform \<Rightarrow> System \<Rightarrow> System" where
  "alertAsymmetricExecution buyResult sellResult bp sp s =
     sendAlert Critical (AsymmetricExecutionAlert buyResult sellResult bp sp) s"

definition alertTradeExecuted ::
  "Platform \<Rightarrow> real \<Rightarrow> Platform \<Rightarrow> real \<Rightarrow> real \<Rightarrow> System \<Rightarrow> System" where
  "alertTradeExecuted bp bprice sp sprice profit s =
     sendAlert Medium (TradeExecutedAlert bp bprice sp sprice profit) s"

section \<open>State manager (src/core/state.ts)\<close>

definition setCircuitBreakerState ::
  "int \<Rightarrow> bool \<Rightarrow> string option \<Rightarrow> System \<Rightarrow> System" where
  "setCircuitBreakerState now p reason s =
     s\<lparr> stateManager := (stateManager s)
          \<lparr> circuitBreakerPaused := p,
            circuitBreakerReason := reason,
            circuitBreakerPausedAt := (if p then Some now else None) \<rparr> \<rparr>"

definition recordSuccessfulTrade :: "int \<Rightarrow> real \<Rightarrow> real \<Rightarrow> System \<Rightarrow> System" where
  "recordSuccessfulTrade now profit volume s =
     s\<lparr> stateManager := (stateManager s)
          \<lparr> dailyPnL := dailyPnL (stateManager s) + profit,
            dailyTradeCount := dailyTradeCount (stateManager s) + 1,
            dailyVolumeUsd := dailyVolumeUsd (stateManager s) + volume,
            lastSuccessfulTrade := Some now \<rparr> \<rparr>"

definition getDailyPnL :: "System \<Rightarrow> real" where
  "getDailyPnL s = dailyPnL (stateManager s)"

section \<open>Circuit breaker (src/core/circuit-breaker.ts)\<close>

definition isPaused :: "System \<Rightarrow> bool" where
  "isPaused s = paused (cb s)"

definition getPauseReason :: "System \<Rightarrow> string option" where
  "getPauseReason s = pauseReason (cb s)"

definition pause :: "int \<Rightarrow> string \<Rightarrow> System \<Rightarrow> System" where
  "pause now reason s =
     (if paused (cb s) then s
      else
        (let s1 = s\<lparr> cb := (cb s)\<lparr> paused := True, pauseReason := Some reason,
                                    pausedAt := Some now \<rparr> \<rparr>;
             s2 = setCircuitBreakerState now True (Some reason) s1
         in alertCircuitBreaker reason s2))"

definition resume :: "int \<Rightarrow> System \<Rightarrow> System" where
  "resume now s =
     (if \<not> paused (cb s) then s
      else
        (let s1 = s\<lparr> cb := (cb s)\<lparr> paused := False, pauseReason := None,
                                    pausedAt := None, consecutiveFailures := 0,
                                    asymmetricExecutions := 0 \<rparr> \<rparr>
         in setCircuitBreakerState now False None s1))"

definition recordSuccess :: "System \<Rightarrow> System" where
  "recordSuccess s = s\<lparr> cb := (cb s)\<lparr> consecutiveFailures := 0 \<rparr> \<rparr>"

definition recordFailure :: "Config \<Rightarrow> int \<Rightarrow> FailureType \<Rightarrow> System \<Rightarrow> System" where
  "recordFailure config now type s =
     (let s1 = s\<lparr> cb := (cb s)\<lparr> consecutiveFailures := consecutiveFailures (cb s) + 1 \<rparr> \<rparr>;
          s2 = (if type = ASYMMETRIC_EXECUTION
                then s1\<lparr> cb := (cb s1)\<lparr> asymmetricExecutions :=
                                            asymmetricExecutions (cb s1) + 1 \<rparr> \<rparr>
                else s1);
          s3 = (if consecutiveFailures (cb s2) \<ge> maxConsecutiveFailures (risk config)
                then pause now (string_of_nat (consecutiveFailures (cb s2))
                                @ '' consecutive failures'') s2
                else s2);
          s4 = (if asymmetricExecutions (cb s3) \<ge> maxAsymmetricExecutions (risk config)
                then pause now (string_of_nat (asymmetricExecutions (cb s3))
                                @ '' asymmetric executions - manual review required'') s3
                else s3);
          s5 = (if type = DAILY_LOSS_LIMIT then pause now ''Daily loss limit reached'' s4
                else s4)
      in (if type = CONNECTION_LOST then pause now ''Connection lost to exchange'' s5
          else s5))"

text \<open>A run of \<open>recordFailure\<close> calls, each with the clock value at which it happens.\<close>

fun recordFailures :: "Config \<Rightarrow> (int \<times> FailureType) list \<Rightarrow> System \<Rightarrow> System" where
  "recordFailures config [] s = s"
| "recordFailures config ((now, type) # rest) s =
     recordFailures config rest (recordFailure config now type s)"

section \<open>Text helpers (src/utils/helpers.ts)\<close>

text \<open>
  Titles are ASCII strings. \<open>\w\<close> is a letter, a digit or an underscore; \<open>\s\<close> is a
  space, tab, line feed, vertical tab, form feed or carriage return.
\<close>

definition is_upper :: "char \<Rightarrow> bool" where
  "is_upper c = (65 \<le> (of_char c :: nat) \<and> (of_char c :: nat) \<le> 90)"

definition is_word_char :: "char \<Rightarrow> bool" where
  "is_word_char c =
     (let n = (of_char c :: nat)
      in (48 \<le> n \<and> n \<le> 57) \<or> (65 \<le> n \<and> n \<le> 90) \<or> n = 95 \<or> (97 \<le> n \<and> n \<le> 122))"

definition is_space_char :: "char \<Rightarrow> bool" where
  "is_space_char c = (let n = (of_char c :: nat) in n = 32 \<or> (9 \<le> n \<and> n \<le> 13))"

definition toLowerCase :: "string \<Rightarrow> string" where
  "toLowerCase text =
     map (\<lambda>c. if is_upper c then char_of ((of_char c :: nat) + 32) else c) text"

text \<open>\<open>.replace(/\s+/g, ' ')\<close>: every maximal run of whitespace becomes one space.\<close>

fun collapse_from :: "bool \<Rightarrow> string \<Rightarrow> string" where
  "collapse_from in_run [] = []"
| "collapse_from in_run (c # cs) =
     (if is_space_char c
      then (if in_run then collapse_from True cs else CHR '' '' # collapse_from True cs)
      else c # collapse_from False cs)"

definition collapse_whitespace :: "string \<Rightarrow> string" where
  "collapse_whitespace text = collapse_from False text"

definition trim :: "string \<Rightarrow> string" where
  "trim text = rev (dropWhile is_space_char (rev (dropWhile is_space_char text)))"

definition normalize :: "string \<Rightarrow> string" where
  "normalize text =
     trim (collapse_whitespace
       (filter (\<lambda>c. is_word_char c \<or> is_space_char c) (toLowerCase text)))"

text \<open>
  \<open>levenshteinDistance\<close> fills a matrix with one row per character of \<open>b\<close>. \<open>lev_row\<close>
  computes the cells \<open>matrix[i][j]\<close>, \<open>j \<ge> 1\<close>, of one row from the row above (of which
  \<open>diag # up # _\<close> are the cells \<open>[i-1][j-1]\<close> and \<open>[i-1][j]\<close>) and the cell to the left.
\<close>

fun lev_row :: "char \<Rightarrow> string \<Rightarrow> nat list \<Rightarrow> nat \<Rightarrow> nat list" where
  "lev_row bc (ac # as) (diag # up # prevRow) left =
     (let v = (if bc = ac then diag else min (diag + 1) (min (left + 1) (up + 1)))
      in v # lev_row bc as (up # prevRow) v)"
| "lev_row bc _ _ left = []"

fun lev_rows :: "string \<Rightarrow> string \<Rightarrow> nat list \<Rightarrow> nat \<Rightarrow> nat list" where
  "lev_rows a [] prevRow i = prevRow"
| "lev_rows a (bc # bs) prevRow i = lev_rows a bs (i # lev_row bc a prevRow i) (i + 1)"

definition levenshteinDistance :: "string \<Rightarrow> string \<Rightarrow> nat" where
  "levenshteinDistance a b = last (lev_rows a b [0 ..< length a + 1] 1)"

definition levenshteinSimilarity :: "string \<Rightarrow> string \<Rightarrow> real" where
  "levenshteinSimilarity a b =
     (let maxLength = max (length a) (length b)
      in if maxLength = 0 then 1
         else 1 - real (levenshteinDistance a b) / real maxLength)"

definition datesMatch :: "int \<Rightarrow> int \<Rightarrow> int \<Rightarrow> bool" where
  "datesMatch date1 date2 toleranceMs = (\<bar>date1 - date2\<bar> \<le> toleranceMs)"

text \<open>\<open>s.includes(kw)\<close>: \<open>kw\<close> occurs in \<open>s\<close> as a contiguous substring.\<close>

fun startsWith :: "string \<Rightarrow> string \<Rightarrow> bool" where
  "startsWith s [] = True"
| "startsWith [] (k # ks) = False"
| "startsWith (c # cs) (k # ks) = (c = k \<and> startsWith cs ks)"

fun includes_str :: "string \<Rightarrow> string \<Rightarrow> bool" where
  "includes_str [] kw = (kw = [])"
| "includes_str (c # cs) kw = (startsWith (c # cs) kw \<or> includes_str cs kw)"

text \<open>
  A quotient compared with \<open><\<close>, as JavaScript evaluates it: a positive number divided
  by zero is \<open>Infinity\<close>, a negative one \<open>-Infinity\<close>, and \<open>0 / 0\<close> is \<open>NaN\<close>, which is
  below nothing.
\<close>

definition quotient_less :: "real \<Rightarrow> real \<Rightarrow> real \<Rightarrow> bool" where
  "quotient_less a b c = (if b = 0 then a < 0 else a / b < c)"

text \<open>The same with the quotient rounded, for the detector.\<close>

definition rounded_quotient_less :: "(real \<Rightarrow> real) \<Rightarrow> real \<Rightarrow> real \<Rightarrow> real \<Rightarrow> bool" where
  "rounded_quotient_less rnd a b c = (if b = 0 then a < 0 else rnd (a / b) < c)"

section \<open>Number arithmetic of the detector\<close>

text \<open>
  The source computes on IEEE 754 binary64 numbers: the result of each \<open>+\<close>, \<open>-\<close>, \<open>*\<close> and
  \<open>/\<close> is the exact result rounded to the nearest representable number, and a decimal
  literal such as \<open>0.02\<close> is the representable number nearest to it. Comparisons,
  \<open>Math.min\<close> and \<open>Math.floor\<close> are exact. The detector decides by comparing such
  results with each other, so there the rounding is part of the model: it is the field
  \<open>fp_round\<close> of the environment, applied after every arithmetic operation and to every
  decimal literal (the integer literals \<open>0\<close>, \<open>1\<close>, \<open>2\<close> and \<open>5000\<close> are representable).
  What is proved of the detector is proved for every rounding function. Two roundings
  are defined: \<open>exact\<close>, which gives decimal arithmetic, and \<open>binary64\<close>.
\<close>

definition exact :: "real \<Rightarrow> real" where
  "exact x = x"

text \<open>
  \<open>scale_to_53 fuel x e\<close> brings a positive \<open>x\<close> into the interval from \<open>2^52\<close> to \<open>2^53\<close>
  by doubling and halving, keeping \<open>x * 2^e\<close> unchanged; it stops doubling at the
  exponent \<open>-1074\<close> of the subnormal numbers. From the exponent \<open>-52\<close> the fuel 1100
  reaches every exponent of the format.
\<close>

fun scale_to_53 :: "nat \<Rightarrow> real \<Rightarrow> int \<Rightarrow> real \<times> int" where
  "scale_to_53 0 x e = (x, e)"
| "scale_to_53 (Suc fuel) x e =
     (if x < 2 ^ 52 \<and> - 1074 < e then scale_to_53 fuel (2 * x) (e - 1)
      else if 2 ^ 53 \<le> x then scale_to_53 fuel (x / 2) (e + 1)
      else (x, e))"

definition round_half_even :: "real \<Rightarrow> int" where
  "round_half_even x =
     (let f = \<lfloor>x\<rfloor>; d = x - of_int f
      in if d < 1 / 2 then f
         else if 1 / 2 < d then f + 1
         else if even f then f else f + 1)"

text \<open>
  Rounding to the nearest binary64 number, ties to the even significand. Results of
  magnitude \<open>2^1024\<close> or more, which the format turns into \<open>Infinity\<close>, are not modelled.
\<close>

definition binary64 :: "real \<Rightarrow> real" where
  "binary64 x =
     (if x = 0 then 0
      else (case scale_to_53 1100 (\<bar>x\<bar> * 2 ^ 52) (- 52) of
              (m, e) \<Rightarrow>
                sgn x * of_int (round_half_even m) *
                (if 0 \<le> e then 2 ^ nat e else 1 / 2 ^ nat (- e))))"

section \<open>Arbitrage detector (src/core/arbitrage-detector.ts)\<close>

definition estimateFees ::
  "(real \<Rightarrow> real) \<Rightarrow> Platform \<Rightarrow> Platform \<Rightarrow> real \<Rightarrow> real \<Rightarrow> real \<Rightarrow> real" where
  "estimateFees rnd buyPlatform' sellPlatform' buyPrice' sellPrice' quantity =
     (let fees0 = 0;
          fees1 = (if buyPlatform' = Polymarket
                   then rnd (fees0 + rnd (rnd (buyPrice' * quantity) * rnd (2 / 100)))
                   else fees0);
          fees2 = (if sellPlatform' = Polymarket
                   then rnd (fees1 + rnd (rnd (rnd (1 - sellPrice') * quantity) * rnd (2 / 100)))
                   else fees1)
      in (if sellPlatform' = Kalshi
          then (let potentialProfit = rnd (rnd (1 - sellPrice') * quantity)
                in rnd (fees2 + min (rnd (potentialProfit * rnd (7 / 100)))
                                    (rnd (rnd (7 / 100) * quantity))))
          else fees2))"

definition calculateExecutionRisk :: "Config \<Rightarrow> (real \<Rightarrow> real) \<Rightarrow> real \<Rightarrow> real \<Rightarrow> real" where
  "calculateExecutionRisk config rnd quantity price =
     (if quantity \<ge> rnd (minLiquidityDepth (risk config) * 2) then rnd (1 / 10)
      else if quantity \<ge> minLiquidityDepth (risk config) then rnd (3 / 10)
      else rnd (6 / 10))"

definition createOpportunity ::
  "Config \<Rightarrow> (real \<Rightarrow> real) \<Rightarrow> string \<Rightarrow> int \<Rightarrow> EventMapping \<Rightarrow> Platform \<Rightarrow> real \<Rightarrow> real \<Rightarrow>
   Platform \<Rightarrow> real \<Rightarrow> real \<Rightarrow> real \<Rightarrow> real \<Rightarrow> real \<Rightarrow> ArbitrageOpportunity" where
  "createOpportunity config rnd newId t mapping buyPlatform' buyPrice' buyQuantity'
       sellPlatform' sellPrice' sellQuantity' grossSpread' estimatedFees' maxQuantity' =
     \<lparr> opp_id = newId, opp_timestamp = t, eventMapping = mapping,
       buyPlatform = buyPlatform', buyPrice = buyPrice', buyQuantity = buyQuantity',
       sellPlatform = sellPlatform', sellPrice = sellPrice', sellQuantity = sellQuantity',
       grossSpread = grossSpread', estimatedFees = estimatedFees',
       netProfit = rnd (grossSpread' - estimatedFees'), maxQuantity = maxQuantity',
       executionRisk = calculateExecutionRisk config rnd maxQuantity' buyPrice',
       expirationTime = t + 5000 \<rparr>"

text \<open>\<open>levels[0]?.price || d\<close> and \<open>levels[0]?.size || 0\<close>.\<close>

definition bestPrice :: "OrderBookLevel list \<Rightarrow> real \<Rightarrow> real" where
  "bestPrice levels d = (case levels of [] \<Rightarrow> d | l # _ \<Rightarrow> or_default (lvl_price l) d)"

definition bestSize :: "OrderBookLevel list \<Rightarrow> real" where
  "bestSize levels = (case levels of [] \<Rightarrow> 0 | l # _ \<Rightarrow> or_default (lvl_size l) 0)"

text \<open>Case 1 of \<open>detectArbitrage\<close>: buy on Polymarket at the ask, sell on Kalshi at the bid.\<close>

definition case1 ::
  "Config \<Rightarrow> Env \<Rightarrow> OrderBook \<Rightarrow> OrderBook \<Rightarrow> EventMapping \<Rightarrow> ArbitrageOpportunity option" where
  "case1 config env polymarketBook kalshiBook mapping =
     (let rnd = fp_round env;
          polyYesAsk = bestPrice (asks polymarketBook) 1;
          kalshiYesBid = bestPrice (bids kalshiBook) 0;
          polyAskSize = bestSize (asks polymarketBook);
          kalshiBidSize = bestSize (bids kalshiBook)
      in if polyYesAsk < kalshiYesBid
         then (let spread = rnd (kalshiYesBid - polyYesAsk);
                   maxQuantity' = min polyAskSize kalshiBidSize;
                   fees' = estimateFees rnd Polymarket Kalshi polyYesAsk kalshiYesBid 1
               in if spread > rnd (fees' + rnd (trading_minProfitThreshold (trading config)
                                                   * polyYesAsk))
                  then Some (createOpportunity config rnd (genId env 0) (clock env) mapping
                               Polymarket polyYesAsk polyAskSize
                               Kalshi kalshiYesBid kalshiBidSize
                               spread fees' maxQuantity')
                  else None)
         else None)"

text \<open>
  Case 2: buy on Kalshi at the ask, sell on Polymarket at the bid. The new opportunity
  replaces the one of case 1 only when its \<open>netProfit\<close> is strictly greater.
\<close>

definition case2 ::
  "Config \<Rightarrow> Env \<Rightarrow> OrderBook \<Rightarrow> OrderBook \<Rightarrow> EventMapping \<Rightarrow>
   ArbitrageOpportunity option \<Rightarrow> ArbitrageOpportunity option" where
  "case2 config env polymarketBook kalshiBook mapping opportunity =
     (let rnd = fp_round env;
          polyYesBid = bestPrice (bids polymarketBook) 0;
          kalshiYesAsk = bestPrice (asks kalshiBook) 1;
          polyBidSize = bestSize (bids polymarketBook);
          kalshiAskSize = bestSize (asks kalshiBook)
      in if kalshiYesAsk < polyYesBid
         then (let spread = rnd (polyYesBid - kalshiYesAsk);
                   maxQuantity' = min kalshiAskSize polyBidSize;
                   fees' = estimateFees rnd Kalshi Polymarket kalshiYesAsk polyYesBid 1
               in if spread > rnd (fees' + rnd (trading_minProfitThreshold (trading config)
                                                   * kalshiYesAsk))
                  then (let newOpportunity =
                              createOpportunity config rnd
                                (genId env (case opportunity of None \<Rightarrow> 0 | Some _ \<Rightarrow> 1))
                                (clock env) mapping
                                Kalshi kalshiYesAsk kalshiAskSize
                                Polymarket polyYesBid polyBidSize
                                spread fees' maxQuantity'
                        in case opportunity of
                             None \<Rightarrow> Some newOpportunity
                           | Some old \<Rightarrow>
                               if netProfit newOpportunity > netProfit old
                               then Some newOpportunity else Some old)
                  else opportunity)
         else opportunity)"

definition detectArbitrage ::
  "Config \<Rightarrow> Env \<Rightarrow> OrderBook \<Rightarrow> OrderBook \<Rightarrow> EventMapping \<Rightarrow> System \<Rightarrow>
   ArbitrageOpportunity option \<times> System" where
  "detectArbitrage config env polymarketBook kalshiBook mapping s =
     (case case2 config env polymarketBook kalshiBook mapping
             (case1 config env polymarketBook kalshiBook mapping) of
        None \<Rightarrow> (None, s)
      | Some opportunity \<Rightarrow>
          if rounded_quotient_less (fp_round env) (netProfit opportunity)
               (buyPrice opportunity) (trading_minProfitThreshold (trading config))
          then (None, s)
          else if maxQuantity opportunity < minLiquidityDepth (risk config)
          then (None, s)
          else (Some opportunity,
                s\<lparr> lastOpportunities :=
                     AList.update (em_id mapping) opportunity (lastOpportunities s) \<rparr>))"

definition validateOpportunity ::
  "Config \<Rightarrow> Env \<Rightarrow> ArbitrageOpportunity \<Rightarrow> System \<Rightarrow> bool \<times> System" where
  "validateOpportunity config env opportunity s =
     (if expirationTime opportunity < clock env then (False, s)
      else
        (case fetchedPolymarketBook env of
           None \<Rightarrow> (False, s)
         | Some polyBook \<Rightarrow>
             (case fetchedKalshiBook env of
                None \<Rightarrow> (False, s)
              | Some kalshiBook \<Rightarrow>
                  (case detectArbitrage config env polyBook kalshiBook
                          (eventMapping opportunity) s of
                     (None, s') \<Rightarrow> (False, s')
                   | (Some freshOpportunity, s') \<Rightarrow>
                       if rounded_quotient_less (fp_round env) (netProfit freshOpportunity)
                            (netProfit opportunity)
                            (fp_round env (1 - maxSlippage (trading config)))
                       then (False, s')
                       else (True, s')))))"

section \<open>Event matcher (src/core/event-matcher.ts)\<close>

definition CATEGORY_MAPPINGS :: "(string \<times> string list) list" where
  "CATEGORY_MAPPINGS =
     [(''politics'', [''politics'', ''elections'', ''government'', ''political'']),
      (''economics'', [''economics'', ''fed'', ''economy'', ''financial'', ''finance'']),
      (''crypto'', [''crypto'', ''cryptocurrency'', ''bitcoin'', ''btc'', ''ethereum'', ''eth'']),
      (''sports'', [''sports'', ''nfl'', ''nba'', ''mlb'', ''soccer'', ''football'']),
      (''entertainment'', [''entertainment'', ''media'', ''movies'', ''oscars'', ''awards'']),
      (''science'', [''science'', ''tech'', ''technology'', ''space'', ''climate''])]"

fun categoryLoop :: "(string \<times> string list) list \<Rightarrow> string \<Rightarrow> string \<Rightarrow> bool" where
  "categoryLoop [] normalizedTitle normalizedCategory = True"
| "categoryLoop ((grp, keywords) # rest) normalizedTitle normalizedCategory =
     (let kalshiInGroup = list_ex (\<lambda>kw. includes_str normalizedCategory kw) keywords
      in if kalshiInGroup
         then list_ex (\<lambda>kw. includes_str normalizedTitle kw) keywords
         else categoryLoop rest normalizedTitle normalizedCategory)"

definition categoriesCompatible :: "string \<Rightarrow> string \<Rightarrow> bool" where
  "categoriesCompatible polymarketTitle kalshiCategory =
     categoryLoop CATEGORY_MAPPINGS (normalize polymarketTitle) (normalize kalshiCategory)"

definition createMapping ::
  "Env \<Rightarrow> PolymarketMarket \<Rightarrow> KalshiMarket \<Rightarrow> real \<Rightarrow> MatchMethod \<Rightarrow> EventMapping" where
  "createMapping env polymarket kalshi' confidence method =
     \<lparr> em_id = genId env 0,
       polymarketConditionId = conditionId polymarket,
       kalshiTicker = ticker kalshi',
       eventDescription = pm_title polymarket,
       matchConfidence = confidence,
       resolutionDate = pm_endDate polymarket,
       matchMethod = method,
       outcomeMapping = [\<lparr> polymarketOutcome = ''Yes'', kalshiSide = Yes \<rparr>,
                         \<lparr> polymarketOutcome = ''No'', kalshiSide = No \<rparr>],
       isActive = True,
       createdAt = clock env,
       updatedAt = clock env \<rparr>"

text \<open>
  \<open>INSERT ... ON CONFLICT (polymarket_condition_id, kalshi_ticker) DO UPDATE SET
  match_confidence, updated_at\<close>.
\<close>

fun upsertMapping :: "int \<Rightarrow> EventMapping \<Rightarrow> EventMapping list \<Rightarrow> EventMapping list" where
  "upsertMapping t m [] = [m]"
| "upsertMapping t m (r # rows) =
     (if polymarketConditionId r = polymarketConditionId m \<and> kalshiTicker r = kalshiTicker m
      then r\<lparr> matchConfidence := matchConfidence m, updatedAt := t \<rparr> # rows
      else r # upsertMapping t m rows)"

text \<open>A failing statement is caught and logged; the cache is then left as it was.\<close>

definition saveMapping :: "Env \<Rightarrow> EventMapping \<Rightarrow> System \<Rightarrow> System" where
  "saveMapping env mapping s =
     (if insertMappingOk env
      then s\<lparr> eventMappingsTable := upsertMapping (clock env) mapping (eventMappingsTable s),
              cachedMappings :=
                AList.update (polymarketConditionId mapping) mapping (cachedMappings s) \<rparr>
      else s)"

text \<open>The loop over the Kalshi markets; \<open>continue\<close> is the recursive call on the rest.\<close>

fun findLoop ::
  "Config \<Rightarrow> Env \<Rightarrow> PolymarketMarket \<Rightarrow> string \<Rightarrow> KalshiMarket list \<Rightarrow> System \<Rightarrow>
   EventMapping option \<times> System" where
  "findLoop config env polymarket normalizedPolyTitle [] s = (None, s)"
| "findLoop config env polymarket normalizedPolyTitle (kalshi' # rest) s =
     (let normalizedKalshiTitle = normalize (km_title kalshi')
      in if normalizedPolyTitle = normalizedKalshiTitle
         then (let mapping = createMapping env polymarket kalshi' 1 Exact
               in (Some mapping, saveMapping env mapping s))
         else
           (let similarity = levenshteinSimilarity normalizedPolyTitle normalizedKalshiTitle
            in if similarity \<ge> fuzzyMatchMinSimilarity (matching config)
               then
                 (if requireDateValidation (matching config) \<and>
                     \<not> datesMatch (pm_endDate polymarket) (expirationTime_k kalshi')
                          (24 * 60 * 60 * 1000)
                  then findLoop config env polymarket normalizedPolyTitle rest s
                  else if requireCategoryMatch (matching config) \<and>
                     \<not> categoriesCompatible (pm_title polymarket) (category kalshi')
                  then findLoop config env polymarket normalizedPolyTitle rest s
                  else (let mapping = createMapping env polymarket kalshi' similarity Fuzzy
                        in (Some mapping, saveMapping env mapping s)))
               else findLoop config env polymarket normalizedPolyTitle rest s))"

definition findKalshiEquivalent ::
  "Config \<Rightarrow> Env \<Rightarrow> PolymarketMarket \<Rightarrow> KalshiMarket list \<Rightarrow> System \<Rightarrow>
   EventMapping option \<times> System" where
  "findKalshiEquivalent config env polymarket kalshiMarkets s =
     (case map_of (cachedMappings s) (conditionId polymarket) of
        Some cached \<Rightarrow>
          if isActive cached then (Some cached, s)
          else findLoop config env polymarket (normalize (pm_title polymarket)) kalshiMarkets s
      | None \<Rightarrow>
          findLoop config env polymarket (normalize (pm_title polymarket)) kalshiMarkets s)"

definition getActiveMappings :: "System \<Rightarrow> EventMapping list" where
  "getActiveMappings s = filter (\<lambda>m. isActive m) (map snd (cachedMappings s))"

definition getMapping :: "System \<Rightarrow> string \<Rightarrow> EventMapping option" where
  "getMapping s polymarketConditionId' = map_of (cachedMappings s) polymarketConditionId'"

definition canTradeOnMapping :: "Config \<Rightarrow> EventMapping \<Rightarrow> bool" where
  "canTradeOnMapping config mapping =
     (if matchConfidence mapping < minConfidenceThreshold (matching config)
      then False
      else True)"

section \<open>Risk manager (src/core/risk-manager.ts)\<close>

text \<open>The texts of the rejection reasons and warnings are abstracted to their kind.\<close>

datatype RiskReason =
    CircuitBreakerIsPaused "string option"
  | TotalExposureWouldExceed
  | EventExposureWouldExceed
  | PositionImbalanceExceeds
  | DailyLossLimitReached
  | NetProfitBelowThreshold
  | QuantityExceedsMax
  | QuantityBelowMin
  | TradeValueBelowMinimum
  | EstimatedProfitBelowMinimum

datatype RiskWarning = LowLiquidity | HighExecutionRisk

record RiskCheck =
  approved :: bool
  reasons :: "RiskReason list option"
  warnings :: "RiskWarning list option"
  suggestedQuantity :: "real option"

record InventoryReport =
  inv_eventId :: string
  polymarketYesQty :: real
  polymarketNoQty :: real
  kalshiYesQty :: real
  kalshiNoQty :: real
  netPosition :: real
  imbalanceUsd :: real
  needsRebalancing :: bool

text \<open>\<open>this.positions.get(eventId) || []\<close>.\<close>

definition positionsOf :: "RiskManager \<Rightarrow> string \<Rightarrow> Position list" where
  "positionsOf rm e = (case map_of (positions rm) e of None \<Rightarrow> [] | Some ps \<Rightarrow> ps)"

definition getEventExposure :: "System \<Rightarrow> string \<Rightarrow> real" where
  "getEventExposure s e =
     foldl (\<lambda>sum pos. sum + pos_quantity pos * avgPrice pos) 0 (positionsOf (riskManager s) e)"

definition getTotalExposure :: "System \<Rightarrow> real" where
  "getTotalExposure s = totalExposure (riskManager s)"

definition qtyOn :: "Platform \<Rightarrow> Side \<Rightarrow> Position list \<Rightarrow> real" where
  "qtyOn pf sd ps =
     foldl (\<lambda>q pos. if pos_platform pos = pf \<and> pos_side pos = sd then q + pos_quantity pos else q)
       0 ps"

definition getNetInventory :: "Config \<Rightarrow> System \<Rightarrow> string \<Rightarrow> InventoryReport" where
  "getNetInventory config s e =
     (let ps = positionsOf (riskManager s) e;
          pYes = qtyOn Polymarket Yes ps;
          pNo = qtyOn Polymarket No ps;
          kYes = qtyOn Kalshi Yes ps;
          kNo = qtyOn Kalshi No ps;
          net = (pYes + kYes) - (pNo + kNo);
          avg = (if length ps > 0
                 then foldl (\<lambda>sum p. sum + avgPrice p) 0 ps / real (length ps)
                 else 1 / 2);
          imbalance = \<bar>net\<bar> * avg
      in \<lparr> inv_eventId = e, polymarketYesQty = pYes, polymarketNoQty = pNo,
           kalshiYesQty = kYes, kalshiNoQty = kNo, netPosition = net,
           imbalanceUsd = imbalance,
           needsRebalancing = (imbalance > maxPositionImbalance (risk config)) \<rparr>)"

definition recalculateTotalExposure :: "RiskManager \<Rightarrow> RiskManager" where
  "recalculateTotalExposure rm =
     rm\<lparr> totalExposure :=
          foldl (\<lambda>total entry.
                   foldl (\<lambda>total' pos. total' + pos_quantity pos * avgPrice pos)
                     total (snd entry))
            0 (positions rm) \<rparr>"

text \<open>The first three statements of \<open>addPosition\<close>, which \<open>updatePositions\<close> repeats in its loop.\<close>

definition pushPosition :: "Position \<Rightarrow> RiskManager \<Rightarrow> RiskManager" where
  "pushPosition position rm =
     rm\<lparr> positions :=
          AList.update (eventId position) (positionsOf rm (eventId position) @ [position])
            (positions rm) \<rparr>"

definition addPosition :: "Position \<Rightarrow> System \<Rightarrow> System" where
  "addPosition position s =
     s\<lparr> riskManager := recalculateTotalExposure (pushPosition position (riskManager s)) \<rparr>"


definition validateTrade :: "Config \<Rightarrow> ArbitrageOpportunity \<Rightarrow> real \<Rightarrow> System \<Rightarrow> RiskCheck" where
  "validateTrade config opportunity quantity s =
     (let tradeValue = quantity * buyPrice opportunity;
          e = em_id (eventMapping opportunity);
          eventExposure = getEventExposure s e;
          inventory = getNetInventory config s e;
          estimatedProfit = quantity * netProfit opportunity;
          checks =
            (if isPaused s then [CircuitBreakerIsPaused (getPauseReason s)] else []) @
            (if totalExposure (riskManager s) + tradeValue > maxTotalExposure (risk config)
             then [TotalExposureWouldExceed] else []) @
            (if eventExposure + tradeValue > maxExposurePerEvent (risk config)
             then [EventExposureWouldExceed] else []) @
            (if \<bar>imbalanceUsd inventory\<bar> > maxPositionImbalance (risk config)
             then [PositionImbalanceExceeds] else []) @
            (if getDailyPnL s < - dailyLossLimit (risk config)
             then [DailyLossLimitReached] else []) @
            (if quotient_less (netProfit opportunity) (buyPrice opportunity)
                  (minProfitThreshold (risk config))
             then [NetProfitBelowThreshold] else []) @
            (if quantity > maxQuantityPerTrade (risk config) then [QuantityExceedsMax] else []) @
            (if quantity < minQuantityPerTrade (risk config) then [QuantityBelowMin] else []) @
            (if tradeValue < minTradeValueUsd (smallPosition config)
             then [TradeValueBelowMinimum] else []) @
            (if estimatedProfit < minProfitUsd (smallPosition config)
             then [EstimatedProfitBelowMinimum] else []);
          warnings' =
            (if maxQuantity opportunity < minLiquidityDepth (risk config)
             then [LowLiquidity] else []) @
            (if executionRisk opportunity > 1 / 2 then [HighExecutionRisk] else []);
          remainingExposure = maxTotalExposure (risk config) - totalExposure (riskManager s);
          suggested1 =
            (if remainingExposure > 0 \<and> tradeValue > remainingExposure
             then real_of_int \<lfloor>remainingExposure / buyPrice opportunity\<rfloor>
             else quantity);
          remainingEventExposure = maxExposurePerEvent (risk config) - eventExposure;
          suggested2 =
            (if remainingEventExposure > 0 \<and> tradeValue > remainingEventExposure
             then min suggested1 (real_of_int \<lfloor>remainingEventExposure / buyPrice opportunity\<rfloor>)
             else suggested1);
          suggested3 = min suggested2 (maxQuantityPerTrade (risk config))
      in \<lparr> approved = (checks = []),
           reasons = (if checks \<noteq> [] then Some checks else None),
           warnings = (if warnings' \<noteq> [] then Some warnings' else None),
           suggestedQuantity = (if suggested3 > 0 then Some suggested3 else None) \<rparr>)"

text \<open>
  In \<open>calculateOptimalQuantity\<close> the quotient \<open>remainingExposure / buyPrice\<close> is \<open>Infinity\<close>
  when the price is \<open>0\<close> (the dividend is positive there), and \<open>Math.min\<close> then keeps the
  quantity.
\<close>

definition calculateOptimalQuantity :: "Config \<Rightarrow> ArbitrageOpportunity \<Rightarrow> System \<Rightarrow> real" where
  "calculateOptimalQuantity config opportunity s =
     (let quantity0 = min (buyQuantity opportunity)
                        (min (sellQuantity opportunity) (maxQuantity opportunity));
          quantity1 = min quantity0 (maxQuantityPerTrade (risk config));
          remainingExposure = maxTotalExposure (risk config) - totalExposure (riskManager s);
          quantity2 =
            (if remainingExposure > 0
             then (if buyPrice opportunity = 0 then quantity1
                   else min quantity1
                          (real_of_int \<lfloor>remainingExposure / buyPrice opportunity\<rfloor>))
             else quantity1);
          quantity3 = max quantity2 (minQuantityPerTrade (risk config))
      in real_of_int \<lfloor>quantity3\<rfloor>)"

section \<open>Execution engine (src/core/execution-engine.ts)\<close>

datatype ExecutionError =
    CircuitBreakerActive "string option"
  | RiskRejected RiskReason
  | OpportunityNoLongerValid
  | BothOrdersRejected
  | AsymmetricExecutionError

record ExecutionResult =
  er_success :: bool
  buyExecution :: "OrderResult option"
  sellExecution :: "OrderResult option"
  actualProfit :: real
  slippage :: real
  errors :: "ExecutionError list option"
  circuitBreakerTriggered :: bool
  dryRun :: "bool option"

text \<open>\<open>x || d\<close> on an optional number.\<close>

definition opt_or :: "real option \<Rightarrow> real \<Rightarrow> real" where
  "opt_or x d = (case x of None \<Rightarrow> d | Some v \<Rightarrow> or_default v d)"

definition calculateSlippage :: "real \<Rightarrow> real \<Rightarrow> real" where
  "calculateSlippage expected actual =
     (if expected = 0 then 0 else \<bar>actual - expected\<bar> / expected)"

definition calculateActualProfit :: "OrderResult \<Rightarrow> OrderResult \<Rightarrow> real \<Rightarrow> real" where
  "calculateActualProfit buyEx sellEx quantity =
     (let buyPrice' = opt_or (fillPrice buyEx) 0;
          sellPrice' = opt_or (fillPrice sellEx) 0;
          buyFees = opt_or (fees buyEx) 0;
          sellFees = opt_or (fees sellEx) 0;
          grossProfit = (sellPrice' - buyPrice') * quantity;
          totalFees = buyFees + sellFees
      in grossProfit - totalFees)"

definition recordPositions ::
  "Env \<Rightarrow> ArbitrageOpportunity \<Rightarrow> real \<Rightarrow> OrderResult \<Rightarrow> OrderResult \<Rightarrow> System \<Rightarrow> System" where
  "recordPositions env opportunity quantity buyEx sellEx s =
     (let buyPosition =
            \<lparr> pos_id = genId env 2, pos_platform = buyPlatform opportunity,
              eventId = em_id (eventMapping opportunity),
              eventMappingId = Some (em_id (eventMapping opportunity)),
              pos_side = Yes, pos_quantity = quantity,
              avgPrice = opt_or (fillPrice buyEx) (buyPrice opportunity),
              currentPrice = opt_or (fillPrice buyEx) (buyPrice opportunity),
              unrealizedPnL = 0, openedAt = clock env, pos_updatedAt = clock env \<rparr>;
          sellPosition =
            \<lparr> pos_id = genId env 3, pos_platform = sellPlatform opportunity,
              eventId = em_id (eventMapping opportunity),
              eventMappingId = Some (em_id (eventMapping opportunity)),
              pos_side = No, pos_quantity = quantity,
              avgPrice = opt_or (fillPrice sellEx) (sellPrice opportunity),
              currentPrice = opt_or (fillPrice sellEx) (sellPrice opportunity),
              unrealizedPnL = 0, openedAt = clock env, pos_updatedAt = clock env \<rparr>
      in addPosition sellPosition (addPosition buyPosition s))"

text \<open>
  \<open>saveExecution\<close>: the opportunity row (\<open>ON CONFLICT (id) DO NOTHING\<close>), then the
  execution row. A statement that fails ends the \<open>try\<close> block; the error is logged only.
\<close>

definition saveExecution ::
  "Env \<Rightarrow> ArbitrageOpportunity \<Rightarrow> ExecutionStatus \<Rightarrow> OrderResult option \<Rightarrow>
   OrderResult option \<Rightarrow> real \<Rightarrow> real \<Rightarrow> string option \<Rightarrow> bool \<Rightarrow> System \<Rightarrow> System" where
  "saveExecution env opportunity st buyEx sellEx profit slip note isDryRun s =
     (if \<not> insertOpportunityOk env then s
      else
        (let s1 = (if list_ex (\<lambda>r. opp_id (row_opportunity r) = opp_id opportunity)
                        (opportunitiesTable s)
                   then s
                   else s\<lparr> opportunitiesTable := opportunitiesTable s @
                             [\<lparr> row_opportunity = opportunity,
                                was_executed = (st = Complete) \<rparr>] \<rparr>)
         in if \<not> insertExecutionOk env then s1
            else s1\<lparr> executionsTable := executionsTable s1 @
                       [\<lparr> exec_id = genId env 4, opportunity_id = opp_id opportunity,
                          status = st, buy_execution = buyEx, sell_execution = sellEx,
                          actual_profit = profit, exec_slippage = slip,
                          exec_notes = note, is_dry_run = isDryRun \<rparr>] \<rparr>))"

definition executeDryRun ::
  "Config \<Rightarrow> Env \<Rightarrow> ArbitrageOpportunity \<Rightarrow> real \<Rightarrow> System \<Rightarrow> ExecutionResult \<times> System" where
  "executeDryRun config env opportunity quantity s =
     (let s1 = (if trackHypotheticalPnL (operatingMode config)
                then recordSuccessfulTrade (clock env) (netProfit opportunity * quantity)
                       (quantity * buyPrice opportunity) s
                else s);
          s2 = saveExecution env opportunity Complete
                 (Some \<lparr> success = True, orderId = ''DRY_RUN_'' @ genId env 2,
                         fillPrice = Some (buyPrice opportunity),
                         fillQuantity = Some quantity, fees = None,
                         or_timestamp = clock env, or_error = None \<rparr>)
                 (Some \<lparr> success = True, orderId = ''DRY_RUN_'' @ genId env 3,
                         fillPrice = Some (sellPrice opportunity),
                         fillQuantity = Some quantity, fees = None,
                         or_timestamp = clock env, or_error = None \<rparr>)
                 (netProfit opportunity * quantity) 0 None True s1
      in (\<lparr> er_success = True, buyExecution = None, sellExecution = None,
            actualProfit = netProfit opportunity * quantity, slippage = 0,
            errors = None, circuitBreakerTriggered = False, dryRun = Some True \<rparr>, s2))"

definition marketIdOn :: "Platform \<Rightarrow> ArbitrageOpportunity \<Rightarrow> string" where
  "marketIdOn pf opportunity =
     (if pf = Polymarket then polymarketConditionId (eventMapping opportunity)
      else kalshiTicker (eventMapping opportunity))"

text \<open>
  Step 7 of \<open>execute\<close>: what the engine does with the two settled placements. A leg has
  succeeded when its promise is fulfilled with \<open>success = true\<close>. In the branch where
  both legs succeeded both results are present; \<open>the\<close> stands for the source's non-null
  assertions \<open>buyExecution!\<close> and \<open>sellExecution!\<close> there.
\<close>

definition processResults ::
  "Config \<Rightarrow> Env \<Rightarrow> ArbitrageOpportunity \<Rightarrow> real \<Rightarrow> System \<Rightarrow> ExecutionResult \<times> System" where
  "processResults config env opportunity finalQuantity s =
     (let buySuccess = (case buyOrderResult env of None \<Rightarrow> False | Some r \<Rightarrow> success r);
          sellSuccess = (case sellOrderResult env of None \<Rightarrow> False | Some r \<Rightarrow> success r);
          buyEx = buyOrderResult env;
          sellEx = sellOrderResult env
      in if buySuccess \<and> sellSuccess
         then
           (let profit = calculateActualProfit (the buyEx) (the sellEx) finalQuantity;
                slip = calculateSlippage (netProfit opportunity * finalQuantity) profit;
                s1 = recordSuccess s;
                s2 = recordSuccessfulTrade (clock env) profit
                       (finalQuantity * buyPrice opportunity) s1;
                s3 = recordPositions env opportunity finalQuantity (the buyEx) (the sellEx) s2;
                s4 = saveExecution env opportunity Complete buyEx sellEx profit slip None False s3;
                s5 = alertTradeExecuted (buyPlatform opportunity)
                       (opt_or (fillPrice (the buyEx)) (buyPrice opportunity))
                       (sellPlatform opportunity)
                       (opt_or (fillPrice (the sellEx)) (sellPrice opportunity))
                       profit s4
            in (\<lparr> er_success = True, buyExecution = buyEx, sellExecution = sellEx,
                  actualProfit = profit, slippage = slip, errors = None,
                  circuitBreakerTriggered = False, dryRun = None \<rparr>, s5))
         else if \<not> buySuccess \<and> \<not> sellSuccess
         then (\<lparr> er_success = False, buyExecution = buyEx, sellExecution = sellEx,
                 actualProfit = 0, slippage = 0, errors = Some [BothOrdersRejected],
                 circuitBreakerTriggered = False, dryRun = None \<rparr>, s)
         else
           (let s1 = recordFailure config (clock env) ASYMMETRIC_EXECUTION s;
                s2 = alertAsymmetricExecution
                       (if buySuccess then ''FILLED'' else ''REJECTED'')
                       (if sellSuccess then ''FILLED'' else ''REJECTED'')
                       (buyPlatform opportunity) (sellPlatform opportunity) s1;
                s3 = saveExecution env opportunity Failed buyEx sellEx 0 0
                       (Some ''Asymmetric execution'') False s2
            in (\<lparr> er_success = False, buyExecution = buyEx, sellExecution = sellEx,
                  actualProfit = 0, slippage = 0, errors = Some [AsymmetricExecutionError],
                  circuitBreakerTriggered = True, dryRun = None \<rparr>, s3)))"

definition execute ::
  "Config \<Rightarrow> Env \<Rightarrow> ArbitrageOpportunity \<Rightarrow> System \<Rightarrow> ExecutionResult \<times> System" where
  "execute config env opportunity s =
     (if isPaused s
      then (\<lparr> er_success = False, buyExecution = None, sellExecution = None,
              actualProfit = 0, slippage = 0,
              errors = Some [CircuitBreakerActive (getPauseReason s)],
              circuitBreakerTriggered = True, dryRun = None \<rparr>, s)
      else
        (let quantity = calculateOptimalQuantity config opportunity s;
             riskCheck = validateTrade config opportunity quantity s
         in if \<not> approved riskCheck
            then (\<lparr> er_success = False, buyExecution = None, sellExecution = None,
                    actualProfit = 0, slippage = 0,
                    errors = map_option (map RiskRejected) (reasons riskCheck),
                    circuitBreakerTriggered = False, dryRun = None \<rparr>, s)
            else
              (let finalQuantity = opt_or (suggestedQuantity riskCheck) quantity
               in case validateOpportunity config env opportunity s of
                    (False, s1) \<Rightarrow>
                      (\<lparr> er_success = False, buyExecution = None, sellExecution = None,
                         actualProfit = 0, slippage = 0,
                         errors = Some [OpportunityNoLongerValid],
                         circuitBreakerTriggered = False, dryRun = None \<rparr>, s1)
                  | (True, s1) \<Rightarrow>
                      if mode (operatingMode config) = DryRun
                      then executeDryRun config env opportunity finalQuantity s1
                      else
                        (let buyOrder =
                               \<lparr> lo_platform = buyPlatform opportunity,
                                 marketId = marketIdOn (buyPlatform opportunity) opportunity,
                                 lo_side = Buy, lo_price = buyPrice opportunity,
                                 lo_quantity = finalQuantity, orderType = FOK \<rparr>;
                             sellOrder =
                               \<lparr> lo_platform = sellPlatform opportunity,
                                 marketId = marketIdOn (sellPlatform opportunity) opportunity,
                                 lo_side = Sell, lo_price = sellPrice opportunity,
                                 lo_quantity = finalQuantity, orderType = FOK \<rparr>;
                             s2 = s1\<lparr> placedOrders := placedOrders s1 @ [buyOrder, sellOrder] \<rparr>
                         in processResults config env opportunity finalQuantity s2))))"

section \<open>Notions used to state the properties\<close>

text \<open>
  A direction qualifies when its buy price is below its sell price and the spread exceeds
  the fee estimate for one contract plus the profit threshold times the buy price: the
  two tests that guard \<open>createOpportunity\<close> in \<open>detectArbitrage\<close>, on the numbers that the
  detector computes under the rounding \<open>rnd\<close>.
\<close>

definition qualifies ::
  "Config \<Rightarrow> (real \<Rightarrow> real) \<Rightarrow> Platform \<Rightarrow> Platform \<Rightarrow> real \<Rightarrow> real \<Rightarrow> bool" where
  "qualifies config rnd bp sp buy' sell' =
     (buy' < sell' \<and>
      rnd (sell' - buy')
        > rnd (estimateFees rnd bp sp buy' sell' 1
               + rnd (trading_minProfitThreshold (trading config) * buy')))"

text \<open>The net profit per contract of a direction, as \<open>createOpportunity\<close> computes it.\<close>

definition unitNetProfit :: "(real \<Rightarrow> real) \<Rightarrow> Platform \<Rightarrow> Platform \<Rightarrow> real \<Rightarrow> real \<Rightarrow> real" where
  "unitNetProfit rnd bp sp buy' sell' =
     rnd (rnd (sell' - buy') - estimateFees rnd bp sp buy' sell' 1)"



definition allPositions :: "RiskManager \<Rightarrow> Position list" where
  "allPositions rm = concat (map snd (positions rm))"


text \<open>A leg is filled when its placement is fulfilled with \<open>success = true\<close>.\<close>

definition legFilled :: "OrderResult option \<Rightarrow> bool" where
  "legFilled r = (case r of None \<Rightarrow> False | Some x \<Rightarrow> success x)"

section \<open>Concrete inputs, after the test suite's fixtures\<close>

definition levelAt :: "real \<Rightarrow> real \<Rightarrow> OrderBookLevel" where
  "levelAt p q = \<lparr> lvl_price = p, lvl_size = q \<rparr>"

definition test_mapping :: EventMapping where
  "test_mapping =
     \<lparr> em_id = ''test-mapping-1'', polymarketConditionId = ''poly-123'',
       kalshiTicker = ''KALSHI-TEST'', eventDescription = ''Test Event'',
       matchConfidence = 1, resolutionDate = 1767139200000, matchMethod = Exact,
       outcomeMapping = [\<lparr> polymarketOutcome = ''Yes'', kalshiSide = Yes \<rparr>,
                         \<lparr> polymarketOutcome = ''No'', kalshiSide = No \<rparr>],
       isActive = True, createdAt = 0, updatedAt = 0 \<rparr>"

definition inactive_mapping :: EventMapping where
  "inactive_mapping = test_mapping\<lparr> isActive := False \<rparr>"

text \<open>Polymarket cheaper: bid 0.40, ask 0.42 against Kalshi bid 0.50, ask 0.52, 100 each.\<close>

definition cheap_polymarket_book :: OrderBook where
  "cheap_polymarket_book =
     \<lparr> bids = [levelAt (40 / 100) 100], asks = [levelAt (42 / 100) 100], ob_timestamp = 0 \<rparr>"

definition dear_kalshi_book :: OrderBook where
  "dear_kalshi_book =
     \<lparr> bids = [levelAt (50 / 100) 100], asks = [levelAt (52 / 100) 100], ob_timestamp = 0 \<rparr>"

text \<open>No profitable spread: 0.48/0.50 against 0.49/0.51.\<close>

definition flat_polymarket_book :: OrderBook where
  "flat_polymarket_book =
     \<lparr> bids = [levelAt (48 / 100) 100], asks = [levelAt (50 / 100) 100], ob_timestamp = 0 \<rparr>"

definition flat_kalshi_book :: OrderBook where
  "flat_kalshi_book =
     \<lparr> bids = [levelAt (49 / 100) 100], asks = [levelAt (51 / 100) 100], ob_timestamp = 0 \<rparr>"

text \<open>The first book without its bid side, and a book with no level at all.\<close>

definition bidless_polymarket_book :: OrderBook where
  "bidless_polymarket_book = \<lparr> bids = [], asks = [levelAt (42 / 100) 100], ob_timestamp = 0 \<rparr>"

definition empty_book :: OrderBook where
  "empty_book = \<lparr> bids = [], asks = [], ob_timestamp = 0 \<rparr>"

text \<open>
  Two crossed books on which both directions qualify: buying on Polymarket earns more per
  contract (0.791 against 0.496) but on 60 contracts instead of 1000.
\<close>

definition crossed_polymarket_book :: OrderBook where
  "crossed_polymarket_book =
     \<lparr> bids = [levelAt (80 / 100) 1000], asks = [levelAt (10 / 100) 60], ob_timestamp = 0 \<rparr>"

definition crossed_kalshi_book :: OrderBook where
  "crossed_kalshi_book =
     \<lparr> bids = [levelAt (90 / 100) 60], asks = [levelAt (30 / 100) 1000], ob_timestamp = 0 \<rparr>"

definition filled_order :: "real \<Rightarrow> real \<Rightarrow> OrderResult" where
  "filled_order p q =
     \<lparr> success = True, orderId = ''order-1'', fillPrice = Some p, fillQuantity = Some q,
       fees = None, or_timestamp = 0, or_error = None \<rparr>"

definition rejected_order :: OrderResult where
  "rejected_order =
     \<lparr> success = False, orderId = [], fillPrice = None, fillQuantity = None,
       fees = None, or_timestamp = 0, or_error = Some ''FOK order rejected'' \<rparr>"

text \<open>
  An environment in which the fresh books are the first pair, the buy leg fills and the
  sell leg is rejected; its arithmetic is the decimal one.
\<close>

definition asymmetric_env :: Env where
  "asymmetric_env =
     \<lparr> clock = 0, genId = (\<lambda>n. ''id-'' @ string_of_nat n), fp_round = exact,
       fetchedPolymarketBook = Some cheap_polymarket_book,
       fetchedKalshiBook = Some dear_kalshi_book,
       buyOrderResult = Some (filled_order (42 / 100) 50),
       sellOrderResult = Some rejected_order,
       insertMappingOk = True, insertOpportunityOk = True, insertExecutionOk = True \<rparr>"

definition test_opportunity :: ArbitrageOpportunity where
  "test_opportunity =
     \<lparr> opp_id = ''id-0'', opp_timestamp = 0, eventMapping = test_mapping,
       buyPlatform = Polymarket, buyPrice = 42 / 100, buyQuantity = 100,
       sellPlatform = Kalshi, sellPrice = 50 / 100, sellQuantity = 100,
       grossSpread = 8 / 100, estimatedFees = 217 / 5000, netProfit = 183 / 5000,
       maxQuantity = 100, executionRisk = 1 / 10, expirationTime = 5000 \<rparr>"

definition test_system :: System where
  "test_system = initial_system ''2025-01-01'' 0"

text \<open>The matcher test "should reject exact match when dates do not align".\<close>

definition btc_polymarket :: PolymarketMarket where
  "btc_polymarket =
     \<lparr> pm_id = ''poly-1'', pm_title = ''Will Bitcoin reach $100k by end of 2025?'',
       pm_endDate = 1767139200000, conditionId = ''condition-123'',
       questionId = ''question-456'' \<rparr>"

definition btc_kalshi_misdated :: KalshiMarket where
  "btc_kalshi_misdated =
     \<lparr> km_id = ''kalshi-1'', km_title = ''Will Bitcoin reach $100k by end of 2025?'',
       km_endDate = 1767139200000, ticker = ''BTC-100K-2025'', category = ''crypto'',
       expirationTime_k = 1782777600000, settlementTime = 1767225600000 \<rparr>"

definition test_position :: Position where
  "test_position =
     \<lparr> pos_id = ''pos-1'', pos_platform = Polymarket, eventId = ''event-1'',
       eventMappingId = None, pos_side = Yes, pos_quantity = 10, avgPrice = 1 / 2,
       currentPrice = 1 / 2, unrealizedPnL = 0, openedAt = 0, pos_updatedAt = 0 \<rparr>"

text \<open>
  The same inputs as the runtime holds them: every decimal of a book and of the
  configuration is the binary64 number nearest to it, and the arithmetic rounds to
  binary64.
\<close>

definition binary64_level :: "OrderBookLevel \<Rightarrow> OrderBookLevel" where
  "binary64_level l =
     \<lparr> lvl_price = binary64 (lvl_price l), lvl_size = binary64 (lvl_size l) \<rparr>"

definition binary64_book :: "OrderBook \<Rightarrow> OrderBook" where
  "binary64_book b =
     \<lparr> bids = map binary64_level (bids b), asks = map binary64_level (asks b),
       ob_timestamp = ob_timestamp b \<rparr>"

definition binary64_config :: "Config \<Rightarrow> Config" where
  "binary64_config c =
     \<lparr> trading =
         \<lparr> trading_minProfitThreshold = binary64 (trading_minProfitThreshold (trading c)),
           maxSlippage = binary64 (maxSlippage (trading c)) \<rparr>,
       risk =
         \<lparr> maxExposurePerEvent = binary64 (maxExposurePerEvent (risk c)),
           maxTotalExposure = binary64 (maxTotalExposure (risk c)),
           maxPositionImbalance = binary64 (maxPositionImbalance (risk c)),
           minProfitThreshold = binary64 (minProfitThreshold (risk c)),
           minLiquidityDepth = binary64 (minLiquidityDepth (risk c)),
           dailyLossLimit = binary64 (dailyLossLimit (risk c)),
           maxQuantityPerTrade = binary64 (maxQuantityPerTrade (risk c)),
           minQuantityPerTrade = binary64 (minQuantityPerTrade (risk c)),
           maxConsecutiveFailures = maxConsecutiveFailures (risk c),
           maxAsymmetricExecutions = maxAsymmetricExecutions (risk c) \<rparr>,
       matching =
         \<lparr> minConfidenceThreshold = binary64 (minConfidenceThreshold (matching c)),
           exactMatchConfidence = binary64 (exactMatchConfidence (matching c)),
           fuzzyMatchMinSimilarity = binary64 (fuzzyMatchMinSimilarity (matching c)),
           requireDateValidation = requireDateValidation (matching c),
           requireCategoryMatch = requireCategoryMatch (matching c) \<rparr>,
       smallPosition =
         \<lparr> minTradeValueUsd = binary64 (minTradeValueUsd (smallPosition c)),
           minProfitUsd = binary64 (minProfitUsd (smallPosition c)),
           estimatedGasCostUsd = binary64 (estimatedGasCostUsd (smallPosition c)) \<rparr>,
       operatingMode = operatingMode c \<rparr>"

definition binary64_env :: Env where
  "binary64_env =
     asymmetric_env\<lparr> fp_round := binary64,
       fetchedPolymarketBook := Some (binary64_book cheap_polymarket_book),
       fetchedKalshiBook := Some (binary64_book dear_kalshi_book) \<rparr>"

text \<open>
  Polymarket ask 0.504 against Kalshi bid 0.56: in decimals the spread 0.056 equals the
  fee estimate 0.04088 plus 3% of 0.504.
\<close>

definition edge_polymarket_book :: OrderBook where
  "edge_polymarket_book =
     \<lparr> bids = [levelAt (50 / 100) 100], asks = [levelAt (504 / 1000) 100], ob_timestamp = 0 \<rparr>"

definition edge_kalshi_book :: OrderBook where
  "edge_kalshi_book =
     \<lparr> bids = [levelAt (56 / 100) 100], asks = [levelAt (57 / 100) 100], ob_timestamp = 0 \<rparr>"

text \<open>
  Polymarket 0.23/0.24 against Kalshi bid 0.42, ask 0.08: in decimals both directions
  earn 0.1346 per contract.
\<close>

definition tie_polymarket_book :: OrderBook where
  "tie_polymarket_book =
     \<lparr> bids = [levelAt (23 / 100) 100], asks = [levelAt (24 / 100) 100], ob_timestamp = 0 \<rparr>"

definition tie_kalshi_book :: OrderBook where
  "tie_kalshi_book =
     \<lparr> bids = [levelAt (42 / 100) 100], asks = [levelAt (8 / 100) 100], ob_timestamp = 0 \<rparr>"



definition tie_opportunity :: ArbitrageOpportunity where
  "tie_opportunity =
     \<lparr> opp_id = ''id-1'', opp_timestamp = 0, eventMapping = test_mapping,
       buyPlatform = Kalshi, buyPrice = binary64 (8 / 100), buyQuantity = 100,
       sellPlatform = Polymarket, sellPrice = binary64 (23 / 100), sellQuantity = 100,
       grossSpread = 1351079888211149 / 9007199254740992,
       estimatedFees = 4438747792736361 / 288230376151711744,
       netProfit = 4849476078752551 / 36028797018963968,
       maxQuantity = 100, executionRisk = binary64 (1 / 10), expirationTime = 5000 \<rparr>"

definition crossed_opportunity :: ArbitrageOpportunity where
  "crossed_opportunity =
     \<lparr> opp_id = ''id-0'', opp_timestamp = 0, eventMapping = test_mapping,
       buyPlatform = Polymarket, buyPrice = binary64 (10 / 100), buyQuantity = 60,
       sellPlatform = Kalshi, sellPrice = binary64 (90 / 100), sellQuantity = 60,
       grossSpread = 3602879701896397 / 4503599627370496,
       estimatedFees = 5188146770730811 / 576460752303423488,
       netProfit = 7124694610500125 / 9007199254740992,
       maxQuantity = 60, executionRisk = binary64 (3 / 10), expirationTime = 5000 \<rparr>"

section \<open>Auxiliary facts\<close>

subsection \<open>Configuration and fixtures\<close>

lemma loadConfig_sel:
  "maxSlippage (trading (loadConfig m)) = 1 / 100"
  "trading_minProfitThreshold (trading (loadConfig m)) = 3 / 100"
  "minLiquidityDepth (risk (loadConfig m)) = 50"
  "maxConsecutiveFailures (risk (loadConfig m)) = 3"
  "maxAsymmetricExecutions (risk (loadConfig m)) = 1"
  "minConfidenceThreshold (matching (loadConfig m)) = 95 / 100"
  "requireDateValidation (matching (loadConfig m))"
  "mode (operatingMode (loadConfig m)) = m"
  by (simp_all add: loadConfig_def)

lemma binary64_config_sel:
  "trading_minProfitThreshold (trading (binary64_config c))
     = binary64 (trading_minProfitThreshold (trading c))"
  "minLiquidityDepth (risk (binary64_config c)) = binary64 (minLiquidityDepth (risk c))"
  by (simp_all add: binary64_config_def)

lemma string_of_nat_0: "string_of_nat 0 = ''0''"
  by code_simp

lemma string_of_nat_1: "string_of_nat (Suc 0) = ''1''"
  by code_simp

lemma asymmetric_env_sel:
  "clock asymmetric_env = 0"
  "genId asymmetric_env 0 = ''id-0''"
  "fp_round asymmetric_env = exact"
  "fetchedPolymarketBook asymmetric_env = Some cheap_polymarket_book"
  "fetchedKalshiBook asymmetric_env = Some dear_kalshi_book"
  "buyOrderResult asymmetric_env = Some (filled_order (42 / 100) 50)"
  "sellOrderResult asymmetric_env = Some rejected_order"
  "insertOpportunityOk asymmetric_env"
  "insertExecutionOk asymmetric_env"
  by (simp_all add: asymmetric_env_def string_of_nat_0)

lemma binary64_env_sel:
  "clock binary64_env = 0"
  "genId binary64_env 0 = ''id-0''"
  "genId binary64_env (Suc 0) = ''id-1''"
  "fp_round binary64_env = binary64"
  by (simp_all add: binary64_env_def asymmetric_env_def string_of_nat_0 string_of_nat_1)

lemma test_opportunity_sel:
  "expirationTime test_opportunity = 5000"
  "eventMapping test_opportunity = test_mapping"
  "netProfit test_opportunity = 183 / 5000"
  "buyPlatform test_opportunity = Polymarket"
  "sellPlatform test_opportunity = Kalshi"
  "buyPrice test_opportunity = 42 / 100"
  "sellPrice test_opportunity = 50 / 100"
  "grossSpread test_opportunity = 8 / 100"
  "estimatedFees test_opportunity = 217 / 5000"
  "maxQuantity test_opportunity = 100"
  by (simp_all add: test_opportunity_def)

lemma test_system_sel:
  "cb test_system = new_CircuitBreaker"
  "riskManager test_system = new_RiskManager"
  "lastOpportunities test_system = []"
  "cachedMappings test_system = []"
  "executionsTable test_system = []"
  by (simp_all add: test_system_def initial_system_def)

lemmas book_defs =
  cheap_polymarket_book_def dear_kalshi_book_def flat_polymarket_book_def
  flat_kalshi_book_def bidless_polymarket_book_def empty_book_def
  crossed_polymarket_book_def crossed_kalshi_book_def edge_polymarket_book_def
  edge_kalshi_book_def tie_polymarket_book_def tie_kalshi_book_def levelAt_def
  binary64_book_def binary64_level_def bestPrice_def bestSize_def or_default_def

subsection \<open>Rounding to binary64\<close>

lemma scale_to_53_numeral:
  "scale_to_53 (numeral k) x e =
     (if x < 2 ^ 52 \<and> - 1074 < e then scale_to_53 (pred_numeral k) (2 * x) (e - 1)
      else if 2 ^ 53 \<le> x then scale_to_53 (pred_numeral k) (x / 2) (e + 1)
      else (x, e))"
  by (simp add: numeral_eq_Suc)

lemmas binary64_eval = binary64_def scale_to_53_numeral round_half_even_def Let_def min_def

text \<open>
  The decimals of the configuration and of the books as binary64 numbers. 0.5 and the
  whole numbers are representable; the other decimals are not.
\<close>

lemma binary64_decimals:
  "binary64 (2 / 100) = 5764607523034235 / 2 ^ 58"
  "binary64 (3 / 100) = 1080863910568919 / 2 ^ 55"
  "binary64 (7 / 100) = 1261007895663739 / 2 ^ 54"
  "binary64 (1 / 10) = 3602879701896397 / 2 ^ 55"
  "binary64 (42 / 100) = 7566047373982433 / 2 ^ 54"
  "binary64 (504 / 1000) = 1134907106097365 / 2 ^ 51"
  "binary64 (56 / 100) = 1261007895663739 / 2 ^ 51"
  "binary64 (50 / 100) = 1 / 2"
  "binary64 50 = 50"
  "binary64 100 = 100"
  "binary64 0 = 0"
  "binary64 1 = 1"
  by (simp_all add: binary64_eval)

text \<open>
  The difference 0.56 - 0.504 in binary64 arithmetic lies above the decimal 0.056; in
  decimal arithmetic it is 0.056.
\<close>

lemma binary64_difference_above_decimal:
  "binary64 (binary64 (56 / 100) - binary64 (504 / 1000)) = 63050394783187 / 2 ^ 50"
  "(56 / 1000 :: real) < 63050394783187 / 2 ^ 50"
  "exact (exact (56 / 100) - exact (504 / 1000)) = 56 / 1000"
  by (simp_all add: binary64_eval exact_def)

subsection \<open>Circuit breaker\<close>

lemma pause_cb:
  "cb (pause t r s) =
     (if paused (cb s) then cb s
      else (cb s)\<lparr> paused := True, pauseReason := Some r, pausedAt := Some t \<rparr>)"
  by (simp add: pause_def Let_def alertCircuitBreaker_def sendAlert_def
        setCircuitBreakerState_def)

lemma pause_paused: "paused (cb (pause t r s))"
  by (simp add: pause_cb)

lemma pause_frame:
  "riskManager (pause t r s) = riskManager s"
  "executionsTable (pause t r s) = executionsTable s"
  "consecutiveFailures (cb (pause t r s)) = consecutiveFailures (cb s)"
  "asymmetricExecutions (cb (pause t r s)) = asymmetricExecutions (cb s)"
  by (auto simp: pause_def Let_def alertCircuitBreaker_def sendAlert_def
        setCircuitBreakerState_def)

lemma paused_recordFailure:
  "paused (cb s) \<Longrightarrow> paused (cb (recordFailure config t ty s))"
  by (simp add: recordFailure_def pause_def Let_def)

lemma paused_recordFailures:
  "paused (cb s) \<Longrightarrow> paused (cb (recordFailures config evs s))"
  by (induction evs arbitrary: s) (auto simp: paused_recordFailure)

lemma rate_limit_step:
  assumes "\<not> paused (cb s)"
      and "asymmetricExecutions (cb s) < maxAsymmetricExecutions (risk config)"
  shows "paused (cb (recordFailure config t RATE_LIMIT_EXCEEDED s))
           = (maxConsecutiveFailures (risk config) \<le> consecutiveFailures (cb s) + 1)"
    and "consecutiveFailures (cb (recordFailure config t RATE_LIMIT_EXCEEDED s))
           = consecutiveFailures (cb s) + 1"
    and "asymmetricExecutions (cb (recordFailure config t RATE_LIMIT_EXCEEDED s))
           = asymmetricExecutions (cb s)"
  using assms by (simp_all add: recordFailure_def Let_def pause_cb)

lemma recordFailure_asymmetric_counts:
  "consecutiveFailures (cb (recordFailure config t ASYMMETRIC_EXECUTION s))
     = consecutiveFailures (cb s) + 1"
  "asymmetricExecutions (cb (recordFailure config t ASYMMETRIC_EXECUTION s))
     = asymmetricExecutions (cb s) + 1"
  by (simp_all add: recordFailure_def Let_def pause_frame)

lemma recordFailure_asymmetric_paused:
  assumes "maxAsymmetricExecutions (risk config) \<le> asymmetricExecutions (cb s) + 1"
  shows "paused (cb (recordFailure config t ASYMMETRIC_EXECUTION s))"
  using assms by (simp add: recordFailure_def Let_def pause_frame pause_paused)

lemma recordFailure_frame:
  "riskManager (recordFailure config t ty s) = riskManager s"
  "executionsTable (recordFailure config t ty s) = executionsTable s"
  by (simp_all add: recordFailure_def Let_def pause_frame)

subsection \<open>Fee estimate\<close>

lemma estimateFees_terms:
  "estimateFees exact bp sp bprice sprice q =
     (if bp = Polymarket then bprice * q * (2 / 100) else 0) +
     (if sp = Polymarket then (1 - sprice) * q * (2 / 100) else 0) +
     (if sp = Kalshi then min ((1 - sprice) * q * (7 / 100)) ((7 / 100) * q) else 0)"
  by (simp add: estimateFees_def exact_def Let_def)

text \<open>
  The estimate is monotone under every rounding that is monotone and maps 0 to 0, as
  rounding to nearest does.
\<close>

lemma rounded_nonneg:
  assumes "mono rnd" "rnd 0 = (0::real)" "0 \<le> x"
  shows "0 \<le> rnd x"
  using monoD[OF assms(1) assms(3)] assms(2) by simp

lemma estimateFees_rounded_mono_quantity:
  assumes mono: "mono rnd" and zero: "rnd 0 = 0"
      and prices: "0 \<le> bprice" "sprice \<le> 1" and q: "q1 \<le> q2"
  shows "estimateFees rnd bp sp bprice sprice q1 \<le> estimateFees rnd bp sp bprice sprice q2"
proof -
  note m = monoD[OF mono]
  have c2: "0 \<le> rnd (2 / 100)" and c7: "0 \<le> rnd (7 / 100)"
    by (rule rounded_nonneg[OF mono zero], simp)+
  have s0: "0 \<le> rnd (1 - sprice)"
    using prices(2) by (intro rounded_nonneg[OF mono zero]) simp
  have b: "rnd (0 + rnd (rnd (bprice * q1) * rnd (2 / 100)))
         \<le> rnd (0 + rnd (rnd (bprice * q2) * rnd (2 / 100)))"
    by (intro m add_mono order_refl mult_right_mono mult_left_mono c2 prices(1) q)
  have p: "rnd (rnd (rnd (1 - sprice) * q1) * rnd (2 / 100))
         \<le> rnd (rnd (rnd (1 - sprice) * q2) * rnd (2 / 100))"
    by (intro m mult_right_mono mult_left_mono c2 s0 q)
  have k: "min (rnd (rnd (rnd (1 - sprice) * q1) * rnd (7 / 100))) (rnd (rnd (7 / 100) * q1))
         \<le> min (rnd (rnd (rnd (1 - sprice) * q2) * rnd (7 / 100))) (rnd (rnd (7 / 100) * q2))"
    by (intro min.mono m mult_right_mono mult_left_mono c7 s0 q)
  show ?thesis
  proof (cases bp; cases sp)
    assume "bp = Polymarket" "sp = Polymarket"
    then show ?thesis
      by (simp only: estimateFees_def Let_def if_True if_False Platform.distinct simp_thms)
         (intro m add_mono b p)
  next
    assume "bp = Polymarket" "sp = Kalshi"
    then show ?thesis
      by (simp only: estimateFees_def Let_def if_True if_False Platform.distinct simp_thms)
         (intro m add_mono b k)
  next
    assume "bp = Kalshi" "sp = Polymarket"
    then show ?thesis
      by (simp only: estimateFees_def Let_def if_True if_False Platform.distinct simp_thms)
         (intro m add_mono order_refl p)
  next
    assume "bp = Kalshi" "sp = Kalshi"
    then show ?thesis
      by (simp only: estimateFees_def Let_def if_True if_False Platform.distinct simp_thms)
         (intro m add_mono order_refl k)
  qed
qed

lemma estimateFees_rounded_mono_price:
  assumes mono: "mono rnd" and zero: "rnd 0 = 0"
      and q: "0 \<le> q" and s: "1 - sprice1 \<le> 1 - sprice2"
  shows "estimateFees rnd bp Kalshi bprice sprice1 q \<le> estimateFees rnd bp Kalshi bprice sprice2 q"
proof -
  note m = monoD[OF mono]
  have c7: "0 \<le> rnd (7 / 100)"
    by (rule rounded_nonneg[OF mono zero]) simp
  have k: "min (rnd (rnd (rnd (1 - sprice1) * q) * rnd (7 / 100))) (rnd (rnd (7 / 100) * q))
         \<le> min (rnd (rnd (rnd (1 - sprice2) * q) * rnd (7 / 100))) (rnd (rnd (7 / 100) * q))"
    by (intro min.mono m mult_right_mono c7 q s order_refl)
  show ?thesis
    by (cases bp)
       (simp_all only: estimateFees_def Let_def if_True if_False Platform.distinct
          simp_thms, (intro m add_mono order_refl k)+)
qed

lemma exact_rounding: "mono exact" "exact 0 = 0"
  by (simp_all add: exact_def mono_def)

subsection \<open>Detector\<close>

lemma case1_eq:
  "case1 config env pb kb m =
     (if qualifies config (fp_round env) Polymarket Kalshi
           (bestPrice (asks pb) 1) (bestPrice (bids kb) 0)
      then Some (createOpportunity config (fp_round env) (genId env 0) (clock env) m
                   Polymarket (bestPrice (asks pb) 1) (bestSize (asks pb))
                   Kalshi (bestPrice (bids kb) 0) (bestSize (bids kb))
                   (fp_round env (bestPrice (bids kb) 0 - bestPrice (asks pb) 1))
                   (estimateFees (fp_round env) Polymarket Kalshi
                      (bestPrice (asks pb) 1) (bestPrice (bids kb) 0) 1)
                   (min (bestSize (asks pb)) (bestSize (bids kb))))
      else None)"
  by (simp add: case1_def qualifies_def Let_def)

lemma case2_eq:
  "case2 config env pb kb m old =
     (if qualifies config (fp_round env) Kalshi Polymarket
           (bestPrice (asks kb) 1) (bestPrice (bids pb) 0)
      then (let new = createOpportunity config (fp_round env)
                        (genId env (case old of None \<Rightarrow> 0 | Some _ \<Rightarrow> 1)) (clock env) m
                        Kalshi (bestPrice (asks kb) 1) (bestSize (asks kb))
                        Polymarket (bestPrice (bids pb) 0) (bestSize (bids pb))
                        (fp_round env (bestPrice (bids pb) 0 - bestPrice (asks kb) 1))
                        (estimateFees (fp_round env) Kalshi Polymarket
                           (bestPrice (asks kb) 1) (bestPrice (bids pb) 0) 1)
                        (min (bestSize (asks kb)) (bestSize (bids pb)))
            in case old of
                 None \<Rightarrow> Some new
               | Some a \<Rightarrow> if netProfit new > netProfit a then Some new else Some a)
      else old)"
  by (simp add: case2_def qualifies_def Let_def)





lemma detect_Some:
  assumes "detectArbitrage config env pb kb m s = (Some opp, s')"
  shows "case2 config env pb kb m (case1 config env pb kb m) = Some opp"
    and "minLiquidityDepth (risk config) \<le> maxQuantity opp"
  using assms by (auto simp: detectArbitrage_def split: option.splits if_splits)


lemma detectArbitrage_frame:
  assumes "detectArbitrage config env pb kb m s = (r, s')"
  shows "cb s' = cb s" "riskManager s' = riskManager s"
        "executionsTable s' = executionsTable s" "alertLog s' = alertLog s"
  using assms by (auto simp: detectArbitrage_def split: option.splits if_splits)

lemma validateOpportunity_frame:
  assumes "validateOpportunity config env opp s = (r, s')"
  shows "cb s' = cb s" "riskManager s' = riskManager s"
        "executionsTable s' = executionsTable s" "alertLog s' = alertLog s"
  using assms
  by (auto simp: validateOpportunity_def split: option.splits if_splits prod.splits
           dest: detectArbitrage_frame)



text \<open>
  Both directions can qualify only on crossed books: on one venue at least the best ask
  is below the best bid. \<open>detectArbitrage\<close> does not reject such books.
\<close>

lemma both_qualify_crossed:
  assumes "qualifies config rnd Polymarket Kalshi polyAsk kalshiBid"
      and "qualifies config rnd Kalshi Polymarket kalshiAsk polyBid"
  shows "polyAsk < polyBid \<or> kalshiAsk < kalshiBid"
  using assms by (auto simp: qualifies_def)

text \<open>The first pair of books in decimal arithmetic.\<close>

lemma cheap_case1:
  "case1 (loadConfig Live) asymmetric_env cheap_polymarket_book dear_kalshi_book test_mapping
     = Some test_opportunity"
  by (simp add: case1_eq qualifies_def estimateFees_def book_defs loadConfig_def
        createOpportunity_def calculateExecutionRisk_def asymmetric_env_sel exact_def
        test_opportunity_def Let_def)

lemma cheap_case2:
  "case2 (loadConfig Live) asymmetric_env cheap_polymarket_book dear_kalshi_book test_mapping old
     = old"
  by (simp add: case2_eq qualifies_def estimateFees_def book_defs loadConfig_def
        asymmetric_env_sel exact_def)

lemma cheap_detect:
  "detectArbitrage (loadConfig Live) asymmetric_env cheap_polymarket_book dear_kalshi_book
       test_mapping s
     = (Some test_opportunity,
        s\<lparr> lastOpportunities :=
             AList.update ''test-mapping-1'' test_opportunity (lastOpportunities s) \<rparr>)"
  by (simp add: detectArbitrage_def cheap_case1 cheap_case2)
     (simp add: test_opportunity_def test_mapping_def rounded_quotient_less_def
        asymmetric_env_sel exact_def loadConfig_def)

text \<open>The books in binary64 arithmetic.\<close>

lemmas detect_eval =
  detectArbitrage_def case1_eq case2_eq qualifies_def unitNetProfit_def estimateFees_def
  createOpportunity_def calculateExecutionRisk_def rounded_quotient_less_def
  binary64_config_sel binary64_env_sel loadConfig_sel test_mapping_def book_defs
  binary64_eval




lemma crossed_qualified:
  "qualifies (binary64_config (loadConfig Live)) binary64 Polymarket Kalshi
     (bestPrice (asks (binary64_book crossed_polymarket_book)) 1)
     (bestPrice (bids (binary64_book crossed_kalshi_book)) 0)"
  "qualifies (binary64_config (loadConfig Live)) binary64 Kalshi Polymarket
     (bestPrice (asks (binary64_book crossed_kalshi_book)) 1)
     (bestPrice (bids (binary64_book crossed_polymarket_book)) 0)"
  by (simp_all add: detect_eval)

lemma crossed_unit_profits:
  "unitNetProfit binary64 Polymarket Kalshi
     (bestPrice (asks (binary64_book crossed_polymarket_book)) 1)
     (bestPrice (bids (binary64_book crossed_kalshi_book)) 0)
     = 7124694610500125 / 2 ^ 53"
  "unitNetProfit binary64 Kalshi Polymarket
     (bestPrice (asks (binary64_book crossed_kalshi_book)) 1)
     (bestPrice (bids (binary64_book crossed_polymarket_book)) 0)
     = 1116892707587883 / 2 ^ 51"
  by (simp_all add: detect_eval)

lemma crossed_sizes:
  "min (bestSize (asks (binary64_book crossed_polymarket_book)))
       (bestSize (bids (binary64_book crossed_kalshi_book))) = 60"
  "min (bestSize (asks (binary64_book crossed_kalshi_book)))
       (bestSize (bids (binary64_book crossed_polymarket_book))) = 1000"
  by (simp_all add: book_defs binary64_eval)

lemma crossed_detect:
  "detectArbitrage (binary64_config (loadConfig Live)) binary64_env
       (binary64_book crossed_polymarket_book) (binary64_book crossed_kalshi_book)
       test_mapping s
     = (Some crossed_opportunity,
        s\<lparr> lastOpportunities :=
             AList.update ''test-mapping-1'' crossed_opportunity (lastOpportunities s) \<rparr>)"
  by (simp add: detect_eval crossed_opportunity_def)

lemma tie_qualified:
  "qualifies (binary64_config (loadConfig Live)) binary64 Polymarket Kalshi
     (bestPrice (asks (binary64_book tie_polymarket_book)) 1)
     (bestPrice (bids (binary64_book tie_kalshi_book)) 0)"
  "qualifies (binary64_config (loadConfig Live)) binary64 Kalshi Polymarket
     (bestPrice (asks (binary64_book tie_kalshi_book)) 1)
     (bestPrice (bids (binary64_book tie_polymarket_book)) 0)"
  by (simp_all add: detect_eval)

lemma tie_unit_profits:
  "unitNetProfit binary64 Polymarket Kalshi
     (bestPrice (asks (binary64_book tie_polymarket_book)) 1)
     (bestPrice (bids (binary64_book tie_kalshi_book)) 0)
     = 2424738039376275 / 2 ^ 54"
  "unitNetProfit binary64 Kalshi Polymarket
     (bestPrice (asks (binary64_book tie_kalshi_book)) 1)
     (bestPrice (bids (binary64_book tie_polymarket_book)) 0)
     = 4849476078752551 / 2 ^ 55"
  by (simp_all add: detect_eval)

lemma tie_detect:
  "detectArbitrage (binary64_config (loadConfig Live)) binary64_env
       (binary64_book tie_polymarket_book) (binary64_book tie_kalshi_book) test_mapping s
     = (Some tie_opportunity,
        s\<lparr> lastOpportunities :=
             AList.update ''test-mapping-1'' tie_opportunity (lastOpportunities s) \<rparr>)"
  by (simp add: detect_eval tie_opportunity_def)

text \<open>
  In decimal arithmetic the two boundary inputs behave otherwise: the first spread
  equals the fee estimate plus the threshold and nothing is emitted; the two directions
  of the second are worth the same and the Polymarket one is kept.
\<close>

lemma edge_decimal:
  "detectArbitrage (loadConfig Live) asymmetric_env edge_polymarket_book edge_kalshi_book
       test_mapping s = (None, s)"
  by (simp add: detectArbitrage_def case1_eq case2_eq qualifies_def estimateFees_def
        book_defs loadConfig_sel asymmetric_env_sel exact_def)

lemma tie_decimal:
  "map_option (\<lambda>c. (buyPlatform c, sellPlatform c, netProfit c))
     (fst (detectArbitrage (loadConfig Live) asymmetric_env tie_polymarket_book
             tie_kalshi_book test_mapping s))
     = Some (Polymarket, Kalshi, 1346 / 10000)"
  by (simp add: detectArbitrage_def case1_eq case2_eq qualifies_def estimateFees_def
        createOpportunity_def rounded_quotient_less_def book_defs loadConfig_sel
        asymmetric_env_sel exact_def Let_def)

subsection \<open>Ledger\<close>















subsection \<open>Execution engine\<close>

lemma saveExecution_frame:
  "cb (saveExecution env opp st b sl pr sp n d s) = cb s"
  "riskManager (saveExecution env opp st b sl pr sp n d s) = riskManager s"
  "alertLog (saveExecution env opp st b sl pr sp n d s) = alertLog s"
  by (simp_all add: saveExecution_def Let_def)

lemma saveExecution_row:
  assumes "insertOpportunityOk env" "insertExecutionOk env"
  shows "executionsTable (saveExecution env opp st b sl pr sp n d s) =
           executionsTable s @
             [\<lparr> exec_id = genId env 4, opportunity_id = opp_id opp, status = st,
                buy_execution = b, sell_execution = sl, actual_profit = pr,
                exec_slippage = sp, exec_notes = n, is_dry_run = d \<rparr>]"
  using assms by (simp add: saveExecution_def Let_def)

lemma alertAsymmetric_frame:
  "cb (alertAsymmetricExecution a b p q s) = cb s"
  "riskManager (alertAsymmetricExecution a b p q s) = riskManager s"
  "executionsTable (alertAsymmetricExecution a b p q s) = executionsTable s"
  "alertLog (alertAsymmetricExecution a b p q s)
     = alertLog s @ [(Critical, AsymmetricExecutionAlert a b p q)]"
  by (simp_all add: alertAsymmetricExecution_def sendAlert_def)

lemma processResults_asymmetric:
  assumes "legFilled (buyOrderResult env) \<noteq> legFilled (sellOrderResult env)"
      and "processResults config env opp q s = (res, s')"
  shows "s' = saveExecution env opp Failed (buyOrderResult env) (sellOrderResult env) 0 0
                (Some ''Asymmetric execution'') False
                (alertAsymmetricExecution
                   (if legFilled (buyOrderResult env) then ''FILLED'' else ''REJECTED'')
                   (if legFilled (sellOrderResult env) then ''FILLED'' else ''REJECTED'')
                   (buyPlatform opp) (sellPlatform opp)
                   (recordFailure config (clock env) ASYMMETRIC_EXECUTION s))"
    and "\<not> er_success res"
    and "circuitBreakerTriggered res"
    and "errors res = Some [AsymmetricExecutionError]"
  using assms by (auto simp: processResults_def legFilled_def Let_def split: if_splits)

text \<open>The quantity that \<open>execute\<close> sends to the venues.\<close>

lemma execute_fires:
  assumes "mode (operatingMode config) = Live"
      and "\<not> isPaused s"
      and "approved (validateTrade config opp (calculateOptimalQuantity config opp s) s)"
      and "validateOpportunity config env opp s = (True, s1)"
      and "q = opt_or (suggestedQuantity
                 (validateTrade config opp (calculateOptimalQuantity config opp s) s))
               (calculateOptimalQuantity config opp s)"
  shows "execute config env opp s =
           processResults config env opp q
             (s1\<lparr> placedOrders := placedOrders s1 @
                 [\<lparr> lo_platform = buyPlatform opp,
                    marketId = marketIdOn (buyPlatform opp) opp,
                    lo_side = Buy, lo_price = buyPrice opp,
                    lo_quantity = q, orderType = FOK \<rparr>,
                  \<lparr> lo_platform = sellPlatform opp,
                    marketId = marketIdOn (sellPlatform opp) opp,
                    lo_side = Sell, lo_price = sellPrice opp,
                    lo_quantity = q, orderType = FOK \<rparr>] \<rparr>)"
  using assms by (simp add: execute_def Let_def)

text \<open>What \<open>execute\<close> leaves behind when it fires and exactly one leg fills.\<close>

lemma execute_asymmetric:
  assumes live: "mode (operatingMode config) = Live"
      and notPaused: "\<not> isPaused s"
      and approved: "approved (validateTrade config opp (calculateOptimalQuantity config opp s) s)"
      and valid: "fst (validateOpportunity config env opp s)"
      and asym: "legFilled (buyOrderResult env) \<noteq> legFilled (sellOrderResult env)"
      and ex: "execute config env opp s = (res, s')"
  shows "asymmetricExecutions (cb s') = asymmetricExecutions (cb s) + 1"
    and "consecutiveFailures (cb s') = consecutiveFailures (cb s) + 1"
    and "maxAsymmetricExecutions (risk config) \<le> asymmetricExecutions (cb s) + 1
           \<Longrightarrow> paused (cb s')"
    and "(Critical, AsymmetricExecutionAlert
            (if legFilled (buyOrderResult env) then ''FILLED'' else ''REJECTED'')
            (if legFilled (sellOrderResult env) then ''FILLED'' else ''REJECTED'')
            (buyPlatform opp) (sellPlatform opp)) \<in> set (alertLog s')"
    and "insertOpportunityOk env \<Longrightarrow> insertExecutionOk env \<Longrightarrow>
         executionsTable s' = executionsTable s @
           [\<lparr> exec_id = genId env 4, opportunity_id = opp_id opp, status = Failed,
              buy_execution = buyOrderResult env, sell_execution = sellOrderResult env,
              actual_profit = 0, exec_slippage = 0,
              exec_notes = Some ''Asymmetric execution'', is_dry_run = False \<rparr>]"
    and "riskManager s' = riskManager s"
    and "\<not> er_success res"
    and "circuitBreakerTriggered res"
    and "errors res = Some [AsymmetricExecutionError]"
proof -
  obtain s1 where v: "validateOpportunity config env opp s = (True, s1)"
    using valid by (cases "validateOpportunity config env opp s") auto
  note f1 = validateOpportunity_frame[OF v]
  define q where
    "q = opt_or (suggestedQuantity
            (validateTrade config opp (calculateOptimalQuantity config opp s) s))
          (calculateOptimalQuantity config opp s)"
  define s2 where
    "s2 = s1\<lparr> placedOrders := placedOrders s1 @
             [\<lparr> lo_platform = buyPlatform opp,
                marketId = marketIdOn (buyPlatform opp) opp,
                lo_side = Buy, lo_price = buyPrice opp,
                lo_quantity = q, orderType = FOK \<rparr>,
              \<lparr> lo_platform = sellPlatform opp,
                marketId = marketIdOn (sellPlatform opp) opp,
                lo_side = Sell, lo_price = sellPrice opp,
                lo_quantity = q, orderType = FOK \<rparr>] \<rparr>"
  have s2: "execute config env opp s = processResults config env opp q s2"
    unfolding s2_def by (rule execute_fires[OF live notPaused approved v q_def])
  have f2: "cb s2 = cb s1" "riskManager s2 = riskManager s1"
           "executionsTable s2 = executionsTable s1" "alertLog s2 = alertLog s1"
    by (simp_all add: s2_def)
  from ex s2 have pr: "processResults config env opp q s2 = (res, s')" by simp
  note p = processResults_asymmetric[OF asym pr]
  show "asymmetricExecutions (cb s') = asymmetricExecutions (cb s) + 1"
    and "consecutiveFailures (cb s') = consecutiveFailures (cb s) + 1"
    by (simp_all add: p(1) saveExecution_frame alertAsymmetric_frame
          recordFailure_asymmetric_counts f1 f2)
  show "paused (cb s')"
    if "maxAsymmetricExecutions (risk config) \<le> asymmetricExecutions (cb s) + 1"
  proof -
    from that have "maxAsymmetricExecutions (risk config) \<le> asymmetricExecutions (cb s2) + 1"
      by (simp add: f1 f2)
    then have "paused (cb (recordFailure config (clock env) ASYMMETRIC_EXECUTION s2))"
      by (rule recordFailure_asymmetric_paused)
    then show ?thesis by (simp add: p(1) saveExecution_frame alertAsymmetric_frame)
  qed
  show "(Critical, AsymmetricExecutionAlert
            (if legFilled (buyOrderResult env) then ''FILLED'' else ''REJECTED'')
            (if legFilled (sellOrderResult env) then ''FILLED'' else ''REJECTED'')
            (buyPlatform opp) (sellPlatform opp)) \<in> set (alertLog s')"
    by (simp add: p(1) saveExecution_frame alertAsymmetric_frame)
  show "executionsTable s' = executionsTable s @
           [\<lparr> exec_id = genId env 4, opportunity_id = opp_id opp, status = Failed,
              buy_execution = buyOrderResult env, sell_execution = sellOrderResult env,
              actual_profit = 0, exec_slippage = 0,
              exec_notes = Some ''Asymmetric execution'', is_dry_run = False \<rparr>]"
    if "insertOpportunityOk env" "insertExecutionOk env"
    using that
    by (simp add: p(1) saveExecution_row alertAsymmetric_frame recordFailure_frame f1 f2)
  show "riskManager s' = riskManager s"
    by (simp add: p(1) saveExecution_frame alertAsymmetric_frame recordFailure_frame f1 f2)
  show "\<not> er_success res" "circuitBreakerTriggered res"
       "errors res = Some [AsymmetricExecutionError]"
    using p(2,3,4) by simp_all
qed

lemma quantity_50:
  "calculateOptimalQuantity (loadConfig Live) test_opportunity test_system = 50"
  by (simp add: calculateOptimalQuantity_def loadConfig_def test_opportunity_def
        test_system_def initial_system_def new_RiskManager_def Let_def)

lemma approved_50:
  "approved (validateTrade (loadConfig Live) test_opportunity 50 test_system)"
  by (simp add: validateTrade_def loadConfig_def test_opportunity_def test_system_def
        initial_system_def new_RiskManager_def new_CircuitBreaker_def
        createInitialState_def isPaused_def getDailyPnL_def getEventExposure_def
        getNetInventory_def positionsOf_def qtyOn_def quotient_less_def test_mapping_def
        Let_def)

lemma valid_cheap:
  "fst (validateOpportunity (loadConfig Live) asymmetric_env test_opportunity test_system)"
  by (simp add: validateOpportunity_def asymmetric_env_sel test_opportunity_sel
        cheap_detect rounded_quotient_less_def exact_def loadConfig_sel)

lemma asymmetric_legs:
  "legFilled (buyOrderResult asymmetric_env)"
  "\<not> legFilled (sellOrderResult asymmetric_env)"
  by (simp_all add: legFilled_def asymmetric_env_sel filled_order_def rejected_order_def)

lemma test_system_not_paused: "\<not> isPaused test_system"
  by (simp add: isPaused_def test_system_sel new_CircuitBreaker_def)

section \<open>Execution engine: asymmetric execution\<close>

text \<open>
  Claim C1, as amended. In live mode, when \<open>execute\<close> fires both orders and exactly one
  leg is filled (the other is rejected or fails), it calls
  \<open>recordFailure(ASYMMETRIC_EXECUTION)\<close>: both failure counters grow by one and, with
  \<open>maxAsymmetricExecutions\<close> at most 1 as configured, the circuit breaker is paused
  afterwards. It sends a critical alert to the alerter and, when both database
  statements succeed, appends an execution row with status \<open>failed\<close>. The risk manager's
  ledger is left exactly as it was: no position is recorded for the filled leg.
\<close>

theorem execute_asymmetric_outcome:
  assumes "mode (operatingMode config) = Live"
      and "\<not> isPaused s"
      and "approved (validateTrade config opp (calculateOptimalQuantity config opp s) s)"
      and "fst (validateOpportunity config env opp s)"
      and "legFilled (buyOrderResult env) \<noteq> legFilled (sellOrderResult env)"
      and "insertOpportunityOk env \<and> insertExecutionOk env"
      and "maxAsymmetricExecutions (risk config) \<le> 1"
      and "execute config env opp s = (res, s')"
  shows "paused (cb s')
       \<and> asymmetricExecutions (cb s') = asymmetricExecutions (cb s) + 1
       \<and> consecutiveFailures (cb s') = consecutiveFailures (cb s) + 1
       \<and> (Critical, AsymmetricExecutionAlert
             (if legFilled (buyOrderResult env) then ''FILLED'' else ''REJECTED'')
             (if legFilled (sellOrderResult env) then ''FILLED'' else ''REJECTED'')
             (buyPlatform opp) (sellPlatform opp)) \<in> set (alertLog s')
       \<and> executionsTable s' = executionsTable s @
             [\<lparr> exec_id = genId env 4, opportunity_id = opp_id opp, status = Failed,
                buy_execution = buyOrderResult env, sell_execution = sellOrderResult env,
                actual_profit = 0, exec_slippage = 0,
                exec_notes = Some ''Asymmetric execution'', is_dry_run = False \<rparr>]
       \<and> riskManager s' = riskManager s
       \<and> \<not> er_success res \<and> circuitBreakerTriggered res"
proof -
  note r = execute_asymmetric[OF assms(1-5) assms(8)]
  from assms(7) have "maxAsymmetricExecutions (risk config) \<le> asymmetricExecutions (cb s) + 1"
    by simp
  then have "paused (cb s')" by (rule r(3))
  moreover from assms(6) have "executionsTable s' = executionsTable s @
             [\<lparr> exec_id = genId env 4, opportunity_id = opp_id opp, status = Failed,
                buy_execution = buyOrderResult env, sell_execution = sellOrderResult env,
                actual_profit = 0, exec_slippage = 0,
                exec_notes = Some ''Asymmetric execution'', is_dry_run = False \<rparr>]"
    by (intro r(5)) simp_all
  ultimately show ?thesis using r(1,2,4,6,7,8) by simp
qed

text \<open>
  The theorem at the test suite's opportunity: the buy leg on Polymarket fills, the sell
  leg on Kalshi is rejected.
\<close>

theorem execute_asymmetric_outcome_witness:
  "mode (operatingMode (loadConfig Live)) = Live
   \<and> \<not> isPaused test_system
   \<and> approved (validateTrade (loadConfig Live) test_opportunity
        (calculateOptimalQuantity (loadConfig Live) test_opportunity test_system) test_system)
   \<and> fst (validateOpportunity (loadConfig Live) asymmetric_env test_opportunity test_system)
   \<and> legFilled (buyOrderResult asymmetric_env) \<noteq> legFilled (sellOrderResult asymmetric_env)
   \<and> insertOpportunityOk asymmetric_env \<and> insertExecutionOk asymmetric_env
   \<and> maxAsymmetricExecutions (risk (loadConfig Live)) \<le> 1
   \<and> paused (cb (snd (execute (loadConfig Live) asymmetric_env test_opportunity test_system)))
   \<and> map status (executionsTable
        (snd (execute (loadConfig Live) asymmetric_env test_opportunity test_system))) = [Failed]
   \<and> riskManager (snd (execute (loadConfig Live) asymmetric_env test_opportunity test_system))
        = riskManager test_system"
proof -
  have h1: "mode (operatingMode (loadConfig Live)) = Live" by (simp add: loadConfig_sel)
  have h2: "\<not> isPaused test_system" by (rule test_system_not_paused)
  have h3: "approved (validateTrade (loadConfig Live) test_opportunity
        (calculateOptimalQuantity (loadConfig Live) test_opportunity test_system) test_system)"
    by (simp add: quantity_50 approved_50)
  have h4: "fst (validateOpportunity (loadConfig Live) asymmetric_env test_opportunity test_system)"
    by (rule valid_cheap)
  have h5: "legFilled (buyOrderResult asymmetric_env) \<noteq> legFilled (sellOrderResult asymmetric_env)"
    by (simp add: asymmetric_legs)
  have h6: "insertOpportunityOk asymmetric_env \<and> insertExecutionOk asymmetric_env"
    by (simp add: asymmetric_env_sel)
  have h7: "maxAsymmetricExecutions (risk (loadConfig Live)) \<le> 1" by (simp add: loadConfig_sel)
  have h8: "execute (loadConfig Live) asymmetric_env test_opportunity test_system
      = (fst (execute (loadConfig Live) asymmetric_env test_opportunity test_system),
         snd (execute (loadConfig Live) asymmetric_env test_opportunity test_system))"
    by simp
  from execute_asymmetric_outcome[OF h1 h2 h3 h4 h5 h6 h7 h8]
  show ?thesis using h1 h2 h3 h4 h5 h6 h7 by (simp add: test_system_sel)
qed

text \<open>
  Claim C1 as stated fails on the ledger: on the same input the engine reports the
  asymmetric execution, and the ledger holds no position afterwards although the buy leg
  was filled.
\<close>

theorem execute_asymmetric_records_no_position:
  "mode (operatingMode (loadConfig Live)) = Live
   \<and> legFilled (buyOrderResult asymmetric_env)
   \<and> \<not> legFilled (sellOrderResult asymmetric_env)
   \<and> errors (fst (execute (loadConfig Live) asymmetric_env test_opportunity test_system))
        = Some [AsymmetricExecutionError]
   \<and> allPositions
        (riskManager (snd (execute (loadConfig Live) asymmetric_env test_opportunity test_system)))
        = []"
proof -
  have h1: "mode (operatingMode (loadConfig Live)) = Live" by (simp add: loadConfig_sel)
  have h3: "approved (validateTrade (loadConfig Live) test_opportunity
        (calculateOptimalQuantity (loadConfig Live) test_opportunity test_system) test_system)"
    by (simp add: quantity_50 approved_50)
  have h5: "legFilled (buyOrderResult asymmetric_env) \<noteq> legFilled (sellOrderResult asymmetric_env)"
    by (simp add: asymmetric_legs)
  have h8: "execute (loadConfig Live) asymmetric_env test_opportunity test_system
      = (fst (execute (loadConfig Live) asymmetric_env test_opportunity test_system),
         snd (execute (loadConfig Live) asymmetric_env test_opportunity test_system))"
    by simp
  note r = execute_asymmetric[OF h1 test_system_not_paused h3 valid_cheap h5 h8]
  show ?thesis
    using r(6) r(9) h1 asymmetric_legs
    by (simp add: test_system_sel new_RiskManager_def allPositions_def)
qed

section \<open>Event matcher: tradability\<close>

text \<open>
  Claim C2, as amended. \<open>canTradeOnMapping\<close> returns true exactly when the mapping's
  confidence is at least the configured minimum confidence threshold; it does not read
  the mapping's \<open>isActive\<close> flag.
\<close>

theorem canTradeOnMapping_iff_confidence:
  "canTradeOnMapping config m
     \<longleftrightarrow> minConfidenceThreshold (matching config) \<le> matchConfidence m"
  by (simp add: canTradeOnMapping_def not_less)

text \<open>
  Claim C2 as stated fails for an inactive mapping of confidence 1 under the default
  threshold 0.95: it can be traded on.
\<close>

theorem canTradeOnMapping_inactive_counterexample:
  "\<not> isActive inactive_mapping \<and> canTradeOnMapping (loadConfig Live) inactive_mapping"
  by (simp add: inactive_mapping_def test_mapping_def canTradeOnMapping_def loadConfig_sel)

section \<open>Event matcher: exact matches and dates\<close>

text \<open>
  Claim C3 on the input of the test "should reject exact match when dates do not align":
  date validation is required, the two normalized titles are identical and the dates are
  six months apart, beyond the 24 hour tolerance. \<open>findKalshiEquivalent\<close> nevertheless
  returns the exact mapping of confidence 1, where the claim and the test expect none.
\<close>

theorem findKalshiEquivalent_exact_ignores_dates:
  "requireDateValidation (matching (loadConfig Live))
   \<and> normalize (pm_title btc_polymarket) = normalize (km_title btc_kalshi_misdated)
   \<and> \<not> datesMatch (pm_endDate btc_polymarket) (expirationTime_k btc_kalshi_misdated)
          (24 * 60 * 60 * 1000)
   \<and> map_option (\<lambda>m. (kalshiTicker m, matchMethod m, matchConfidence m))
        (fst (findKalshiEquivalent (loadConfig Live) asymmetric_env btc_polymarket
                [btc_kalshi_misdated] test_system))
       = Some (''BTC-100K-2025'', Exact, 1)"
  by (simp add: loadConfig_sel btc_polymarket_def btc_kalshi_misdated_def datesMatch_def
        findKalshiEquivalent_def test_system_sel createMapping_def Let_def)

section \<open>Detector: what is emitted\<close>



section \<open>Detector: choice between two qualifying directions\<close>

text \<open>
  Claim C5, as amended. Whenever both directions qualify and \<open>detectArbitrage\<close> returns
  an opportunity, that opportunity is the direction with the greater net profit per
  contract as the detector computes it (the computed gross spread minus the computed fee
  estimate for one contract, the difference rounded like every result of the runtime's
  arithmetic), buying on Polymarket when the two computed numbers are equal; the
  quantities available do not enter the choice.
\<close>

theorem detectArbitrage_prefers_unit_profit:
  assumes "qualifies config (fp_round env) Polymarket Kalshi
             (bestPrice (asks pb) 1) (bestPrice (bids kb) 0)"
      and "qualifies config (fp_round env) Kalshi Polymarket
             (bestPrice (asks kb) 1) (bestPrice (bids pb) 0)"
      and "detectArbitrage config env pb kb m s = (Some opp, s')"
  shows "netProfit opp =
           max (unitNetProfit (fp_round env) Polymarket Kalshi
                  (bestPrice (asks pb) 1) (bestPrice (bids kb) 0))
               (unitNetProfit (fp_round env) Kalshi Polymarket
                  (bestPrice (asks kb) 1) (bestPrice (bids pb) 0))
       \<and> (if unitNetProfit (fp_round env) Kalshi Polymarket
                 (bestPrice (asks kb) 1) (bestPrice (bids pb) 0)
               > unitNetProfit (fp_round env) Polymarket Kalshi
                   (bestPrice (asks pb) 1) (bestPrice (bids kb) 0)
           then buyPlatform opp = Kalshi \<and> sellPlatform opp = Polymarket
           else buyPlatform opp = Polymarket \<and> sellPlatform opp = Kalshi)"
  using detect_Some(1)[OF assms(3)] assms(1,2)
  by (auto simp: case1_eq case2_eq createOpportunity_def unitNetProfit_def Let_def
           split: if_splits)

text \<open>
  The theorem in binary64 arithmetic on two pairs of crossed books. On the first
  (Polymarket 0.23/0.24, Kalshi bid 0.42, ask 0.08) the two directions are worth 0.1346
  each in decimals; the detector computes 0.1346 for buying on Polymarket and
  0.13460000000000003 for buying on Kalshi, and returns the latter. On the second the
  Polymarket direction is computed as 0.791 against 0.496 and is returned.
\<close>

theorem detectArbitrage_prefers_unit_profit_witness:
  "qualifies (binary64_config (loadConfig Live)) binary64 Polymarket Kalshi
     (bestPrice (asks (binary64_book tie_polymarket_book)) 1)
     (bestPrice (bids (binary64_book tie_kalshi_book)) 0)
   \<and> qualifies (binary64_config (loadConfig Live)) binary64 Kalshi Polymarket
     (bestPrice (asks (binary64_book tie_kalshi_book)) 1)
     (bestPrice (bids (binary64_book tie_polymarket_book)) 0)
   \<and> detectArbitrage (binary64_config (loadConfig Live)) binary64_env
       (binary64_book tie_polymarket_book) (binary64_book tie_kalshi_book)
       test_mapping test_system
     = (Some tie_opportunity,
        test_system\<lparr> lastOpportunities := [(''test-mapping-1'', tie_opportunity)] \<rparr>)
   \<and> unitNetProfit binary64 Polymarket Kalshi
       (bestPrice (asks (binary64_book tie_polymarket_book)) 1)
       (bestPrice (bids (binary64_book tie_kalshi_book)) 0)
     < unitNetProfit binary64 Kalshi Polymarket
       (bestPrice (asks (binary64_book tie_kalshi_book)) 1)
       (bestPrice (bids (binary64_book tie_polymarket_book)) 0)
   \<and> netProfit tie_opportunity = 4849476078752551 / 2 ^ 55
   \<and> buyPlatform tie_opportunity = Kalshi
   \<and> sellPlatform tie_opportunity = Polymarket
   \<and> qualifies (binary64_config (loadConfig Live)) binary64 Polymarket Kalshi
     (bestPrice (asks (binary64_book crossed_polymarket_book)) 1)
     (bestPrice (bids (binary64_book crossed_kalshi_book)) 0)
   \<and> qualifies (binary64_config (loadConfig Live)) binary64 Kalshi Polymarket
     (bestPrice (asks (binary64_book crossed_kalshi_book)) 1)
     (bestPrice (bids (binary64_book crossed_polymarket_book)) 0)
   \<and> detectArbitrage (binary64_config (loadConfig Live)) binary64_env
       (binary64_book crossed_polymarket_book) (binary64_book crossed_kalshi_book)
       test_mapping test_system
     = (Some crossed_opportunity,
        test_system\<lparr> lastOpportunities := [(''test-mapping-1'', crossed_opportunity)] \<rparr>)
   \<and> netProfit crossed_opportunity = 7124694610500125 / 2 ^ 53
   \<and> buyPlatform crossed_opportunity = Polymarket
   \<and> sellPlatform crossed_opportunity = Kalshi"
proof -
  note r = binary64_env_sel(4)
  note tq = tie_qualified[folded r]
  note cq = crossed_qualified[folded r]
  have td: "detectArbitrage (binary64_config (loadConfig Live)) binary64_env
             (binary64_book tie_polymarket_book) (binary64_book tie_kalshi_book)
             test_mapping test_system
           = (Some tie_opportunity,
              test_system\<lparr> lastOpportunities := [(''test-mapping-1'', tie_opportunity)] \<rparr>)"
    by (simp add: tie_detect test_system_sel)
  have cd: "detectArbitrage (binary64_config (loadConfig Live)) binary64_env
             (binary64_book crossed_polymarket_book) (binary64_book crossed_kalshi_book)
             test_mapping test_system
           = (Some crossed_opportunity,
              test_system\<lparr> lastOpportunities := [(''test-mapping-1'', crossed_opportunity)] \<rparr>)"
    by (simp add: crossed_detect test_system_sel)
  have lt: "unitNetProfit binary64 Polymarket Kalshi
       (bestPrice (asks (binary64_book tie_polymarket_book)) 1)
       (bestPrice (bids (binary64_book tie_kalshi_book)) 0)
     < unitNetProfit binary64 Kalshi Polymarket
       (bestPrice (asks (binary64_book tie_kalshi_book)) 1)
       (bestPrice (bids (binary64_book tie_polymarket_book)) 0)"
    by (simp add: tie_unit_profits)
  from detectArbitrage_prefers_unit_profit[OF tq(1) tq(2) td]
  have t: "netProfit tie_opportunity = 4849476078752551 / 2 ^ 55
      \<and> buyPlatform tie_opportunity = Kalshi
      \<and> sellPlatform tie_opportunity = Polymarket"
    by (simp add: r tie_unit_profits)
  from detectArbitrage_prefers_unit_profit[OF cq(1) cq(2) cd]
  have c: "netProfit crossed_opportunity = 7124694610500125 / 2 ^ 53
      \<and> buyPlatform crossed_opportunity = Polymarket
      \<and> sellPlatform crossed_opportunity = Kalshi"
    by (simp add: r crossed_unit_profits)
  from tie_qualified crossed_qualified td cd lt t c show ?thesis by blast
qed

text \<open>
  Claim C5 as stated fails on the second pair of crossed books: both directions qualify,
  buying on Polymarket is worth 0.791 on 60 contracts, buying on Kalshi 0.496 on 1000
  contracts, so the product of net profit and quantity is greater for Kalshi (496
  against 47.46); the detector returns the Polymarket direction.
\<close>

theorem detectArbitrage_ignores_quantity_counterexample:
  "qualifies (binary64_config (loadConfig Live)) binary64 Polymarket Kalshi
     (bestPrice (asks (binary64_book crossed_polymarket_book)) 1)
     (bestPrice (bids (binary64_book crossed_kalshi_book)) 0)
   \<and> qualifies (binary64_config (loadConfig Live)) binary64 Kalshi Polymarket
     (bestPrice (asks (binary64_book crossed_kalshi_book)) 1)
     (bestPrice (bids (binary64_book crossed_polymarket_book)) 0)
   \<and> unitNetProfit binary64 Polymarket Kalshi
       (bestPrice (asks (binary64_book crossed_polymarket_book)) 1)
       (bestPrice (bids (binary64_book crossed_kalshi_book)) 0)
       * min (bestSize (asks (binary64_book crossed_polymarket_book)))
             (bestSize (bids (binary64_book crossed_kalshi_book)))
     < unitNetProfit binary64 Kalshi Polymarket
       (bestPrice (asks (binary64_book crossed_kalshi_book)) 1)
       (bestPrice (bids (binary64_book crossed_polymarket_book)) 0)
       * min (bestSize (asks (binary64_book crossed_kalshi_book)))
             (bestSize (bids (binary64_book crossed_polymarket_book)))
   \<and> fst (detectArbitrage (binary64_config (loadConfig Live)) binary64_env
            (binary64_book crossed_polymarket_book) (binary64_book crossed_kalshi_book)
            test_mapping test_system) = Some crossed_opportunity
   \<and> buyPlatform crossed_opportunity = Polymarket
   \<and> sellPlatform crossed_opportunity = Kalshi"
  by (simp add: crossed_qualified crossed_unit_profits crossed_sizes crossed_detect
        crossed_opportunity_def)

section \<open>Circuit breaker: rate-limit failures\<close>

text \<open>
  Claim C6, as amended. \<open>recordFailure(RATE_LIMIT_EXCEEDED)\<close> has no pause of its own,
  but it counts as a consecutive failure like every other kind. Starting from an
  unpaused breaker whose asymmetric count is below its threshold, a run of rate-limit
  failures leaves the breaker paused exactly when the run is not empty and the
  consecutive-failure count, increased by the length of the run, reaches
  \<open>maxConsecutiveFailures\<close>.
\<close>

theorem rate_limit_failures_pause_iff:
  assumes "\<not> paused (cb s)"
      and "asymmetricExecutions (cb s) < maxAsymmetricExecutions (risk config)"
      and "\<forall>e\<in>set evs. snd e = RATE_LIMIT_EXCEEDED"
  shows "paused (cb (recordFailures config evs s)) \<longleftrightarrow>
           (evs \<noteq> [] \<and>
            maxConsecutiveFailures (risk config) \<le> consecutiveFailures (cb s) + length evs)"
  using assms
proof (induction evs arbitrary: s)
  case Nil
  then show ?case by simp
next
  case (Cons e rest)
  obtain t ty where e: "e = (t, ty)" by (cases e)
  with Cons.prems have ty: "ty = RATE_LIMIT_EXCEEDED" by simp
  let ?s' = "recordFailure config t RATE_LIMIT_EXCEEDED s"
  note step = rate_limit_step[OF Cons.prems(1) Cons.prems(2), of t]
  show ?case
  proof (cases "paused (cb ?s')")
    case True
    then have "paused (cb (recordFailures config rest ?s'))"
      by (rule paused_recordFailures)
    moreover from True step(1)
    have "maxConsecutiveFailures (risk config) \<le> consecutiveFailures (cb s) + 1" by simp
    ultimately show ?thesis by (simp add: e ty)
  next
    case False
    have "paused (cb (recordFailures config rest ?s')) \<longleftrightarrow>
            (rest \<noteq> [] \<and>
             maxConsecutiveFailures (risk config) \<le> consecutiveFailures (cb ?s') + length rest)"
      using Cons.IH[OF False] step(3) Cons.prems by simp
    moreover from False step(1)
    have "\<not> maxConsecutiveFailures (risk config) \<le> consecutiveFailures (cb s) + 1" by simp
    ultimately show ?thesis using step(2) by (cases rest) (auto simp: e ty)
  qed
qed

text \<open>The theorem on a fresh breaker and two rate-limit failures: it stays unpaused.\<close>

theorem rate_limit_failures_pause_iff_witness:
  "\<not> paused (cb test_system)
   \<and> asymmetricExecutions (cb test_system) < maxAsymmetricExecutions (risk (loadConfig Live))
   \<and> map snd [(0::int, RATE_LIMIT_EXCEEDED), (1, RATE_LIMIT_EXCEEDED)]
       = [RATE_LIMIT_EXCEEDED, RATE_LIMIT_EXCEEDED]
   \<and> \<not> paused (cb (recordFailures (loadConfig Live)
           [(0, RATE_LIMIT_EXCEEDED), (1, RATE_LIMIT_EXCEEDED)] test_system))"
proof -
  have h1: "\<not> paused (cb test_system)"
    by (simp add: test_system_sel new_CircuitBreaker_def)
  have h2: "asymmetricExecutions (cb test_system)
              < maxAsymmetricExecutions (risk (loadConfig Live))"
    by (simp add: test_system_sel new_CircuitBreaker_def loadConfig_sel)
  have h3: "\<forall>e\<in>set [(0::int, RATE_LIMIT_EXCEEDED), (1, RATE_LIMIT_EXCEEDED)].
              snd e = RATE_LIMIT_EXCEEDED"
    by simp
  from rate_limit_failures_pause_iff[OF h1 h2 h3]
  have "\<not> paused (cb (recordFailures (loadConfig Live)
           [(0, RATE_LIMIT_EXCEEDED), (1, RATE_LIMIT_EXCEEDED)] test_system))"
    by (simp add: loadConfig_sel test_system_sel new_CircuitBreaker_def)
  with h1 h2 show ?thesis by simp
qed

text \<open>
  Claim C6 as stated fails under the default thresholds: three rate-limit failures in a
  row pause a fresh breaker.
\<close>

theorem rate_limit_failures_pause_counterexample:
  "\<not> paused (cb test_system)
   \<and> paused (cb (recordFailures (loadConfig Live)
        [(0, RATE_LIMIT_EXCEEDED), (1, RATE_LIMIT_EXCEEDED), (2, RATE_LIMIT_EXCEEDED)]
        test_system))"
  by (simp add: test_system_sel new_CircuitBreaker_def loadConfig_sel recordFailure_def
        Let_def pause_cb)

section \<open>Circuit breaker: pause and resume\<close>

text \<open>
  Claim C7, as amended. \<open>pause(r)\<close> on a paused breaker changes nothing, so the stored
  reason and pause time stay. \<open>resume()\<close> on a paused breaker clears the paused flag, the
  reason and the pause time and resets both counters to zero; on a breaker that is not
  paused it returns at once and changes nothing, so the counters keep their values. The
  breaker is never paused after \<open>resume()\<close>.
\<close>

theorem pause_idempotent_resume_clears:
  "(paused (cb s) \<longrightarrow> pause t r s = s)
   \<and> (paused (cb s) \<longrightarrow> cb (resume t s) = new_CircuitBreaker)
   \<and> (\<not> paused (cb s) \<longrightarrow> resume t s = s)
   \<and> \<not> paused (cb (resume t s))"
  by (simp add: pause_def resume_def Let_def setCircuitBreakerState_def new_CircuitBreaker_def)

text \<open>The theorem on a breaker paused by hand, and on a fresh one.\<close>

theorem pause_idempotent_resume_clears_witness:
  "paused (cb (pause 0 ''First pause'' test_system))
   \<and> pause 1 ''Second pause'' (pause 0 ''First pause'' test_system)
       = pause 0 ''First pause'' test_system
   \<and> cb (resume 2 (pause 0 ''First pause'' test_system)) = new_CircuitBreaker
   \<and> \<not> paused (cb test_system)
   \<and> resume 2 test_system = test_system"
proof -
  have h1: "paused (cb (pause 0 ''First pause'' test_system))" by (rule pause_paused)
  have h2: "\<not> paused (cb test_system)"
    by (simp add: test_system_sel new_CircuitBreaker_def)
  from pause_idempotent_resume_clears
         [of "pause 0 ''First pause'' test_system" 1 "''Second pause''"] h1
  have c1: "pause 1 ''Second pause'' (pause 0 ''First pause'' test_system)
              = pause 0 ''First pause'' test_system"
    by blast
  from pause_idempotent_resume_clears
         [of "pause 0 ''First pause'' test_system" 2] h1
  have c2: "cb (resume 2 (pause 0 ''First pause'' test_system)) = new_CircuitBreaker"
    by blast
  from pause_idempotent_resume_clears[of test_system 2] h2
  have c3: "resume 2 test_system = test_system"
    by blast
  from h1 h2 c1 c2 c3 show ?thesis by blast
qed

text \<open>
  Claim C7 as stated fails for \<open>resume()\<close> on a breaker that is not paused: after one
  execution failure the consecutive-failure count is 1, and it is still 1 after
  \<open>resume()\<close>.
\<close>

theorem resume_unpaused_keeps_counters_counterexample:
  "\<not> paused (cb (recordFailure (loadConfig Live) 0 EXECUTION_FAILURE test_system))
   \<and> consecutiveFailures
        (cb (resume 1 (recordFailure (loadConfig Live) 0 EXECUTION_FAILURE test_system))) = 1"
  by (simp add: test_system_sel new_CircuitBreaker_def loadConfig_sel recordFailure_def
        resume_def Let_def)

section \<open>Fee estimate: monotonicity\<close>

text \<open>
  Claim C8. For prices in the unit interval (a buy price of at least 0 and a sell price
  of at most 1), \<open>estimateFees\<close> is monotone non-decreasing in the quantity. When the
  sell leg is on Kalshi it is, for a non-negative quantity, monotone non-decreasing in
  \<open>1 - sellPrice\<close>, and the Kalshi term is the minimum of 7% of \<open>(1 - sellPrice) * q\<close>
  and \<open>0.07 * q\<close>; buying on Kalshi adds no fee. The theorem is stated in decimal
  arithmetic; the two monotonicity statements hold under every monotone rounding that
  maps 0 to 0 (\<open>estimateFees_rounded_mono_quantity\<close>, \<open>estimateFees_rounded_mono_price\<close>).
\<close>

theorem estimateFees_monotone:
  "(0 \<le> bprice \<and> sprice \<le> 1 \<and> q1 \<le> q2 \<longrightarrow>
      estimateFees exact bp sp bprice sprice q1 \<le> estimateFees exact bp sp bprice sprice q2)
   \<and> (0 \<le> q \<and> 1 - sprice1 \<le> 1 - sprice2 \<longrightarrow>
      estimateFees exact bp Kalshi bprice sprice1 q
        \<le> estimateFees exact bp Kalshi bprice sprice2 q)
   \<and> estimateFees exact bp Kalshi bprice sprice q =
        (if bp = Polymarket then bprice * q * (2 / 100) else 0) +
        min ((1 - sprice) * q * (7 / 100)) ((7 / 100) * q)"
proof (intro conjI impI)
  assume "0 \<le> bprice \<and> sprice \<le> 1 \<and> q1 \<le> q2"
  then show "estimateFees exact bp sp bprice sprice q1
               \<le> estimateFees exact bp sp bprice sprice q2"
    by (intro estimateFees_rounded_mono_quantity exact_rounding) simp_all
next
  assume "0 \<le> q \<and> 1 - sprice1 \<le> 1 - sprice2"
  then show "estimateFees exact bp Kalshi bprice sprice1 q
               \<le> estimateFees exact bp Kalshi bprice sprice2 q"
    by (intro estimateFees_rounded_mono_price exact_rounding) simp_all
next
  show "estimateFees exact bp Kalshi bprice sprice q =
          (if bp = Polymarket then bprice * q * (2 / 100) else 0) +
          min ((1 - sprice) * q * (7 / 100)) ((7 / 100) * q)"
    unfolding estimateFees_terms by simp
qed

text \<open>
  The theorem at a buy price of 0.42: from 1 to 10 contracts sold on Kalshi at 0.50, and
  10 contracts with the sell price lowered from 0.50 to 0.40.
\<close>

theorem estimateFees_monotone_witness:
  "(0::real) \<le> 42 / 100 \<and> (50 / 100 :: real) \<le> 1 \<and> (1::real) \<le> 10
   \<and> estimateFees exact Polymarket Kalshi (42 / 100) (50 / 100) 1
       \<le> estimateFees exact Polymarket Kalshi (42 / 100) (50 / 100) 10
   \<and> (0::real) \<le> 10 \<and> (1 - 50 / 100 :: real) \<le> 1 - 40 / 100
   \<and> estimateFees exact Polymarket Kalshi (42 / 100) (50 / 100) 10
       \<le> estimateFees exact Polymarket Kalshi (42 / 100) (40 / 100) 10"
proof -
  have h1: "(0::real) \<le> 42 / 100 \<and> (50 / 100 :: real) \<le> 1 \<and> (1::real) \<le> 10" by simp
  have h2: "(0::real) \<le> 10 \<and> (1 - 50 / 100 :: real) \<le> 1 - 40 / 100" by simp
  from estimateFees_monotone[of "42 / 100" "50 / 100" 1 10 Polymarket Kalshi] h1
  have c1: "estimateFees exact Polymarket Kalshi (42 / 100) (50 / 100) 1
              \<le> estimateFees exact Polymarket Kalshi (42 / 100) (50 / 100) 10"
    by blast
  from estimateFees_monotone[of "42 / 100" _ _ _ Polymarket _ 10 "50 / 100" "40 / 100"] h2
  have c2: "estimateFees exact Polymarket Kalshi (42 / 100) (50 / 100) 10
              \<le> estimateFees exact Polymarket Kalshi (42 / 100) (40 / 100) 10"
    by blast
  from h1 h2 c1 c2 show ?thesis by blast
qed

section \<open>Risk manager: ledger consistency\<close>


section \<open>Detector: degenerate order books\<close>




end
